theory Spec2Isabelle
  imports Complex_Main
begin

section \<open>DQN and Categorical DQN of rlpyt (rlpyt/algos/dqn/dqn.py, cat\_dqn.py)\<close>

text \<open>
  Conventions of the embedding.
  \<^item> Python \<open>int\<close> is \<^typ>\<open>int\<close> (\<open>//\<close> and \<open>%\<close> are \<open>div\<close> and \<open>mod\<close>, both
    flooring); Python and torch floats are idealised as \<^typ>\<open>real\<close>.
  \<^item> A torch tensor of shape \<open>[B]\<close> is a list of length \<open>B\<close>, one of shape \<open>[B,A]\<close> a
    list of rows. The tensors handed to one call are fields of one sampled batch and
    share \<open>B\<close>; elementwise operations are written with \<open>map2\<close>.
  \<^item> Every \<open>raise\<close>, failed \<open>assert\<close> and failing Python operation is a value of
    \<open>py_error\<close>. A method that mutates the algorithm object returns the outcome
    together with the object as it is when the method returns or raises.
  \<^item> The replay buffer, the agent (network) and the optimizer are collaborators whose
    code is elsewhere. The replay buffer object is its class, its constructor
    arguments and the calls made on it so far, in order; what the collaborators
    compute is a parameter (record \<open>world\<close>).
\<close>

datatype py_error =
    AssertionError | NotImplementedError | ZeroDivisionError | UnboundLocalError
  | AttributeError | KeyError | IndexError | RuntimeError

subsection \<open>Construction: \<open>DQN.__init__\<close>\<close>

datatype replay_cls =
    UniformReplayFrameBuffer | PrioritizedReplayFrameBuffer
  | AsyncUniformReplayFrameBuffer | AsyncPrioritizedReplayFrameBuffer
  | OtherReplayCls string

text \<open>The arguments of \<open>__init__\<close> that the modelled methods read (the optimizer's
  arguments belong to the abstracted optimizer).\<close>

record dqn_config =
  discount :: real
  batch_size :: int
  min_steps_learn :: int
  delta_clip :: "real option"
  replay_size :: int
  replay_ratio :: real
  target_update_tau :: real
  target_update_interval :: int
  n_step_return :: int
  eps_steps :: int
  double_dqn :: bool
  prioritized_replay :: bool
  pri_alpha :: real
  pri_beta_init :: real
  pri_beta_final :: real
  pri_beta_steps :: int
  default_priority :: "real option"
  ReplayBufferCls :: "replay_cls option"
  updates_per_sync :: int

text \<open>\<open>if default_priority is None: default_priority = delta_clip\<close>; the other arguments
  are saved as they are.\<close>

definition DQN_init :: "dqn_config \<Rightarrow> dqn_config" where
  "DQN_init args =
     (case default_priority args of
        None \<Rightarrow> args\<lparr>default_priority := delta_clip args\<rparr>
      | Some d \<Rightarrow> args)"

subsection \<open>The replay buffer object and the algorithm object\<close>

record 't SamplesToBuffer =
  observation :: 't
  action :: 't
  reward :: 't
  stb_done :: 't

record 't env_samples =
  env_observation :: 't
  env_reward :: 't
  env_done :: 't

record 't sampler_samples =
  env :: "'t env_samples"
  agent_action :: 't

text \<open>A batch as \<open>sample_batch\<close> returns it; \<open>is_weights\<close> exists on batches of a
  prioritized buffer only.\<close>

record 'inp samples_from_replay =
  agent_inputs :: 'inp
  target_inputs :: 'inp
  s_action :: "nat list"
  s_return :: "real list"
  s_done :: "bool list"
  done_n :: "bool list"
  is_weights :: "real list option"

datatype 't kwarg = KExample "'t SamplesToBuffer" | KInt int | KReal real | KRealOpt "real option"

datatype ('t, 'inp) rb_call =
    is_append: Append_samples "'t SamplesToBuffer"
  | is_sample: Sample_batch int "'inp samples_from_replay"
  | is_update: Update_batch_priorities "real list"
  | is_set_beta: Set_beta real

record ('t, 'inp) replay_buffer_obj =
  rb_cls :: replay_cls
  rb_kwargs :: "(string \<times> 't kwarg) list"
  rb_calls :: "('t, 'inp) rb_call list"

record batch_spec =
  bs_B :: int
  bs_size :: int

record ('ag, 't, 'inp) dqn =
  config :: dqn_config
  agent :: 'ag
  n_itr :: int
  sampler_bs :: int
  mid_batch_reset :: bool
  updates_per_optimize :: int
  min_itr_learn :: int
  pri_beta_itr :: "int option"
  replay_buffer :: "('t, 'inp) replay_buffer_obj"
  update_counter :: int

type_synonym ('a, 's) outcome = "(py_error + 'a) \<times> 's"

text \<open>What the collaborators compute: the agent's forward passes (of tensor type
  \<open>'q\<close>), its target update and epsilon schedule, one optimizer step on a batch
  (\<open>zero_grad\<close>, \<open>backward\<close>, \<open>clip_grad_norm_\<close>, \<open>step\<close>: the new agent and the gradient
  norm), the batch that \<open>sample_batch\<close> returns from a buffer, and the two mask
  utilities \<open>valid_from_done\<close> (rlpyt.algos.utils) and \<open>valid_mean\<close>
  (rlpyt.utils.tensor).\<close>

record ('ag, 't, 'inp, 'q) world =
  forward :: "'ag \<Rightarrow> 'inp \<Rightarrow> 'q"
  target :: "'ag \<Rightarrow> 'inp \<Rightarrow> 'q"
  n_atoms :: "'ag \<Rightarrow> int"
  update_target :: "'ag \<Rightarrow> real \<Rightarrow> 'ag"
  set_epsilon_itr_min_max :: "'ag \<Rightarrow> int \<Rightarrow> int \<Rightarrow> 'ag"
  give_V_min_max :: "'ag \<Rightarrow> real \<Rightarrow> real \<Rightarrow> 'ag"
  optim_step :: "'ag \<Rightarrow> 'inp samples_from_replay \<Rightarrow> 'ag \<times> real"
  sample_batch :: "('t, 'inp) replay_buffer_obj \<Rightarrow> int \<Rightarrow> 'inp samples_from_replay"
  valid_from_done :: "bool list \<Rightarrow> real list"
  valid_mean :: "real list \<Rightarrow> real list \<Rightarrow> real"

definition call_buffer ::
  "('t, 'inp) rb_call \<Rightarrow> ('ag, 't, 'inp, 'z) dqn_scheme \<Rightarrow> ('ag, 't, 'inp, 'z) dqn_scheme" where
  "call_buffer c st =
     st\<lparr>replay_buffer := (replay_buffer st)\<lparr>rb_calls := rb_calls (replay_buffer st) @ [c]\<rparr>\<rparr>"

subsection \<open>\<open>initialize_replay_buffer\<close>, \<open>optim_initialize\<close>, \<open>initialize\<close>\<close>

definition examples_to_buffer :: "(string \<rightharpoonup> 't) \<Rightarrow> py_error + 't SamplesToBuffer" where
  "examples_to_buffer examples =
     (case (examples ''observation'', examples ''action'', examples ''reward'', examples ''done'') of
        (Some ob, Some a, Some r, Some d) \<Rightarrow>
          Inr \<lparr>observation = ob, action = a, reward = r, stb_done = d\<rparr>
      | _ \<Rightarrow> Inl KeyError)"

definition replay_kwargs :: "dqn_config \<Rightarrow> 't SamplesToBuffer \<Rightarrow> batch_spec \<Rightarrow> (string \<times> 't kwarg) list" where
  "replay_kwargs c example_to_buffer spec =
     [(''example'', KExample example_to_buffer),
      (''size'', KInt (replay_size c)),
      (''B'', KInt (bs_B spec)),
      (''discount'', KReal (discount c)),
      (''n_step_return'', KInt (n_step_return c))]
     @ (if prioritized_replay c then
          [(''alpha'', KReal (pri_alpha c)),
           (''beta'', KReal (pri_beta_init c)),
           (''default_priority'', KRealOpt (default_priority c))]
        else [])"

definition select_ReplayCls :: "dqn_config \<Rightarrow> bool \<Rightarrow> replay_cls" where
  "select_ReplayCls c asynch =
     (let ReplayCls =
        (if prioritized_replay c then
           (if asynch then AsyncPrioritizedReplayFrameBuffer else PrioritizedReplayFrameBuffer)
         else
           (if asynch then AsyncUniformReplayFrameBuffer else UniformReplayFrameBuffer))
      in case ReplayBufferCls c of None \<Rightarrow> ReplayCls | Some cls \<Rightarrow> cls)"

definition initialize_replay_buffer ::
  "dqn_config \<Rightarrow> (string \<rightharpoonup> 't) \<Rightarrow> batch_spec \<Rightarrow> bool \<Rightarrow> py_error + ('t, 'inp) replay_buffer_obj" where
  "initialize_replay_buffer c examples spec asynch =
     (case examples_to_buffer examples of
        Inl e \<Rightarrow> Inl e
      | Inr example_to_buffer \<Rightarrow>
          Inr \<lparr>rb_cls = select_ReplayCls c asynch,
               rb_kwargs = replay_kwargs c example_to_buffer spec,
               rb_calls = []\<rparr>)"

definition optim_initialize ::
  "('ag, 't, 'inp, 'z) dqn_scheme \<Rightarrow> py_error + ('ag, 't, 'inp, 'z) dqn_scheme" where
  "optim_initialize st =
     (if prioritized_replay (config st) then
        (if sampler_bs st = 0 then Inl ZeroDivisionError
         else Inr (st\<lparr>pri_beta_itr := Some (max 1 (pri_beta_steps (config st) div sampler_bs st))\<rparr>))
      else Inr st)"

text \<open>Python's \<open>round\<close> on a float: to the nearest integer, ties to the even one.\<close>

definition py_round :: "real \<Rightarrow> int" where
  "py_round x =
     (let f = \<lfloor>x\<rfloor>; d = x - of_int f
      in if d < 1 / 2 then f else if 1 / 2 < d then f + 1 else if even f then f else f + 1)"

definition initialize ::
  "('ag, 't, 'inp, 'q) world \<Rightarrow> dqn_config \<Rightarrow> 'ag \<Rightarrow> int \<Rightarrow> batch_spec \<Rightarrow> bool \<Rightarrow> (string \<rightharpoonup> 't)
     \<Rightarrow> py_error + ('ag, 't, 'inp) dqn" where
  "initialize w c ag n spec mbr examples =
     (let sbs = bs_size spec in
      if batch_size c = 0 then Inl ZeroDivisionError
      else if sbs = 0 then Inl ZeroDivisionError
      else
        let upo = max 1 (py_round (replay_ratio c * of_int sbs / of_int (batch_size c)));
            mil = min_steps_learn c div sbs;
            eps_itr_max = max 1 (eps_steps c div sbs);
            ag' = set_epsilon_itr_min_max w ag mil eps_itr_max
        in case initialize_replay_buffer c examples spec False of
             Inl e \<Rightarrow> Inl e
           | Inr rb \<Rightarrow>
               optim_initialize
                 \<lparr>config = c, agent = ag', n_itr = n, sampler_bs = sbs, mid_batch_reset = mbr,
                  updates_per_optimize = upo, min_itr_learn = mil, pri_beta_itr = None,
                  replay_buffer = rb, update_counter = 0\<rparr>)"

text \<open>\<open>async_initialize\<close>: the buffer is built first, with \<open>async_=True\<close>; no optimizer.\<close>

definition async_initialize ::
  "('ag, 't, 'inp, 'q) world \<Rightarrow> dqn_config \<Rightarrow> 'ag \<Rightarrow> int \<Rightarrow> batch_spec \<Rightarrow> bool \<Rightarrow> (string \<rightharpoonup> 't)
     \<Rightarrow> py_error + ('ag, 't, 'inp) dqn" where
  "async_initialize w c ag sampler_n_itr spec mbr examples =
     (case initialize_replay_buffer c examples spec True of
        Inl e \<Rightarrow> Inl e
      | Inr rb \<Rightarrow>
          let sbs = bs_size spec in
          if sbs = 0 then Inl ZeroDivisionError
          else
            let mil = min_steps_learn c div sbs;
                eps_itr_max = max 1 (eps_steps c div sbs);
                ag' = set_epsilon_itr_min_max w ag mil eps_itr_max
            in Inr \<lparr>config = c, agent = ag', n_itr = sampler_n_itr, sampler_bs = sbs,
                    mid_batch_reset = mbr, updates_per_optimize = updates_per_sync c,
                    min_itr_learn = mil, pri_beta_itr = None, replay_buffer = rb,
                    update_counter = 0\<rparr>)"

subsection \<open>\<open>add_samples_to_buffer\<close>\<close>

definition samples_to_buffer :: "'t sampler_samples \<Rightarrow> 't SamplesToBuffer" where
  "samples_to_buffer samples =
     \<lparr>observation = env_observation (env samples),
      action = agent_action samples,
      reward = env_reward (env samples),
      stb_done = env_done (env samples)\<rparr>"

definition add_samples_to_buffer ::
  "('ag, 't, 'inp, 'z) dqn_scheme \<Rightarrow> int \<Rightarrow> 't sampler_samples option
     \<Rightarrow> (unit, ('ag, 't, 'inp, 'z) dqn_scheme) outcome" where
  "add_samples_to_buffer st itr samples =
     (if \<not> 0 \<le> itr then (Inl AssertionError, st)
      else case samples of
             None \<Rightarrow> (Inr (), st)
           | Some s \<Rightarrow> (Inr (), call_buffer (Append_samples (samples_to_buffer s)) st))"

subsection \<open>\<open>update_itr_hyperparams\<close>\<close>

text \<open>\<open>prog = min(1, max(0, itr - min_itr_learn) / (pri_beta_itr - min_itr_learn))\<close>: the
  \<open>max\<close> is on the numerator, and the true division of two ints raises on a zero
  divisor.\<close>

definition beta_prog :: "int \<Rightarrow> int \<Rightarrow> int \<Rightarrow> py_error + real" where
  "beta_prog itr mil pbi =
     (if pbi - mil = 0 then Inl ZeroDivisionError
      else Inr (min 1 (of_int (max 0 (itr - mil)) / of_int (pbi - mil))))"

definition update_itr_hyperparams ::
  "('ag, 't, 'inp, 'z) dqn_scheme \<Rightarrow> int \<Rightarrow> (unit, ('ag, 't, 'inp, 'z) dqn_scheme) outcome" where
  "update_itr_hyperparams st itr =
     (if prioritized_replay (config st) then
        (case pri_beta_itr st of
           None \<Rightarrow> (Inl AttributeError, st)
         | Some pbi \<Rightarrow>
             if itr \<le> pbi then
               (case beta_prog itr (min_itr_learn st) pbi of
                  Inl e \<Rightarrow> (Inl e, st)
                | Inr prog \<Rightarrow>
                    let new_beta = prog * pri_beta_final (config st)
                                   + (1 - prog) * pri_beta_init (config st)
                    in (Inr (), call_buffer (Set_beta new_beta) st))
             else (Inr (), st))
      else (Inr (), st))"

subsection \<open>Tensor operations\<close>

definition err_bind :: "py_error + 'a \<Rightarrow> ('a \<Rightarrow> py_error + 'b) \<Rightarrow> py_error + 'b" where
  "err_bind m f = (case m of Inl e \<Rightarrow> Inl e | Inr x \<Rightarrow> f x)"

fun map_err :: "('a \<Rightarrow> py_error + 'b) \<Rightarrow> 'a list \<Rightarrow> py_error + 'b list" where
  "map_err f [] = Inr []"
| "map_err f (x # xs) =
     err_bind (f x) (\<lambda>y. err_bind (map_err f xs) (\<lambda>ys. Inr (y # ys)))"

text \<open>\<open>torch.clamp(x, lo, hi)\<close> is \<open>min(max(x, lo), hi)\<close>, also when \<open>lo > hi\<close>.\<close>

definition clamp :: "real \<Rightarrow> real \<Rightarrow> real \<Rightarrow> real" where
  "clamp x lo hi = min (max x lo) hi"

text \<open>\<open>torch.mean\<close> of a \<open>[B]\<close> tensor (on the empty tensor torch gives \<open>nan\<close>; the
  division by zero of \<^typ>\<open>real\<close> gives 0).\<close>

definition mean :: "real list \<Rightarrow> real" where
  "mean xs = sum_list xs / of_nat (length xs)"

text \<open>\<open>select_at_indexes(indexes, tensor)\<close>: row \<open>b\<close> of the tensor at position
  \<open>indexes[b]\<close>.\<close>

definition select_at_indexes :: "nat list \<Rightarrow> 'a list list \<Rightarrow> py_error + 'a list" where
  "select_at_indexes indexes tensor =
     map_err (\<lambda>(i, row). if i < length row then Inr (row ! i) else Inl IndexError)
       (zip indexes tensor)"

text \<open>\<open>torch.max(t, dim=-1).values\<close> and \<open>torch.argmax(t, dim=-1)\<close> (the first maximal
  index); both refuse an empty last dimension.\<close>

definition row_max :: "real list \<Rightarrow> py_error + real" where
  "row_max row = (case row of [] \<Rightarrow> Inl RuntimeError | x # xs \<Rightarrow> Inr (fold max xs x))"

fun argmax_from :: "real \<Rightarrow> nat \<Rightarrow> nat \<Rightarrow> real list \<Rightarrow> nat" where
  "argmax_from best bi i [] = bi"
| "argmax_from best bi i (x # xs) =
     (if best < x then argmax_from x i (Suc i) xs else argmax_from best bi (Suc i) xs)"

definition row_argmax :: "real list \<Rightarrow> py_error + nat" where
  "row_argmax row = (case row of [] \<Rightarrow> Inl RuntimeError | x # xs \<Rightarrow> Inr (argmax_from x 0 1 xs))"

text \<open>\<open>x ** n\<close> for a float \<open>x\<close> and an int \<open>n\<close>.\<close>

definition py_pow :: "real \<Rightarrow> int \<Rightarrow> py_error + real" where
  "py_pow x n =
     (if 0 \<le> n then Inr (x ^ nat n)
      else if x = 0 then Inl ZeroDivisionError
      else Inr (1 / x ^ nat (- n)))"

subsection \<open>\<open>DQN._get_loss_values\<close> and \<open>DQN.loss\<close>\<close>

text \<open>The argument \<open>weigths\<close> is a \<open>[B]\<close> tensor; it is read only when prioritized
  replay is on (without it \<open>DQN.loss\<close> passes \<open>None\<close>, which stands as \<open>[]\<close> here).\<close>

definition huber :: "real \<Rightarrow> real \<Rightarrow> real" where
  "huber dc d = (if \<bar>d\<bar> \<le> dc then 0.5 * d ^ 2 else dc * (\<bar>d\<bar> - dc / 2))"

definition DQN_get_loss_values ::
  "dqn_config \<Rightarrow> bool \<Rightarrow> real list \<Rightarrow> bool list \<Rightarrow> real list \<Rightarrow> real list
     \<Rightarrow> py_error + real \<times> real list" where
  "DQN_get_loss_values c mbr q dones weigths targ =
     (let delta = map2 (-) targ q;
          abs_delta = map abs delta;
          losses = (case delta_clip c of
                      None \<Rightarrow> map (\<lambda>d. 0.5 * d ^ 2) delta
                    | Some dc \<Rightarrow> map (huber dc) delta);
          losses = (if prioritized_replay c then map2 (*) losses weigths else losses);
          td_abs_errors = (case delta_clip c of
                             None \<Rightarrow> abs_delta
                           | Some dc \<Rightarrow> map (\<lambda>a. clamp a 0 dc) abs_delta)
      in if \<not> mbr then Inl NotImplementedError
         else Inr (mean losses, td_abs_errors))"

text \<open>\<open>y = samples_return_ + (1 - samples_done_n.float()) * disc_target_q\<close> with
  \<open>disc_target_q = (discount ** n_step_return) * target_q\<close>; the second argument is
  the value of \<open>discount ** n_step_return\<close>.\<close>

definition target_y :: "real list \<Rightarrow> real \<Rightarrow> bool list \<Rightarrow> real list \<Rightarrow> real list" where
  "target_y returns disc_n dones_n target_q =
     (let disc_target_q = map (\<lambda>t. disc_n * t) target_q
      in map2 (\<lambda>r (dn, t). r + (1 - of_bool dn) * t) returns (zip dones_n disc_target_q))"

text \<open>The importance weights that \<open>loss\<close> reads from the batch when prioritized
  replay is on.\<close>

definition read_is_weights :: "'inp samples_from_replay \<Rightarrow> py_error + real list" where
  "read_is_weights samples =
     (case is_weights samples of None \<Rightarrow> Inl AttributeError | Some ws \<Rightarrow> Inr ws)"

definition DQN_target_q ::
  "('ag, 't, 'inp, real list list) world \<Rightarrow> bool \<Rightarrow> 'ag \<Rightarrow> 'inp samples_from_replay
     \<Rightarrow> py_error + real list" where
  "DQN_target_q w ddqn ag samples =
     (let target_qs = target w ag (target_inputs samples)
      in if ddqn then
           (let next_qs = forward w ag (target_inputs samples)
            in err_bind (map_err row_argmax next_qs)
                 (\<lambda>next_a. select_at_indexes next_a target_qs))
         else map_err row_max target_qs)"

text \<open>The target \<open>y\<close> that \<open>DQN.loss\<close> hands to \<open>_get_loss_values\<close>.\<close>

definition DQN_y ::
  "('ag, 't, 'inp, real list list) world \<Rightarrow> ('ag, 't, 'inp, 'z) dqn_scheme
     \<Rightarrow> 'inp samples_from_replay \<Rightarrow> py_error + real list" where
  "DQN_y w st samples =
     err_bind (DQN_target_q w (double_dqn (config st)) (agent st) samples)
       (\<lambda>target_q.
     err_bind (py_pow (discount (config st)) (n_step_return (config st)))
       (\<lambda>disc_n. Inr (target_y (s_return samples) disc_n (done_n samples) target_q)))"

definition DQN_loss ::
  "('ag, 't, 'inp, real list list) world \<Rightarrow> ('ag, 't, 'inp, 'z) dqn_scheme
     \<Rightarrow> 'inp samples_from_replay \<Rightarrow> py_error + real \<times> real list" where
  "DQN_loss w st samples =
     err_bind (if prioritized_replay (config st) then read_is_weights samples else Inr [])
       (\<lambda>samples_is_weights.
     err_bind (select_at_indexes (s_action samples) (forward w (agent st) (agent_inputs samples)))
       (\<lambda>q.
     err_bind (DQN_y w st samples)
       (\<lambda>y. DQN_get_loss_values (config st) (mid_batch_reset st) q (s_done samples)
               samples_is_weights y)))"

subsection \<open>\<open>CategoricalDQN\<close>\<close>

record ('ag, 't, 'inp) cat_dqn = "('ag, 't, 'inp) dqn" +
  V_min :: real
  V_max :: real

definition EPS :: real where
  "EPS = 1 / 1000000"

definition cat_initialize ::
  "('ag, 't, 'inp, 'q) world \<Rightarrow> dqn_config \<Rightarrow> real \<Rightarrow> real \<Rightarrow> 'ag \<Rightarrow> int \<Rightarrow> batch_spec \<Rightarrow> bool
     \<Rightarrow> (string \<rightharpoonup> 't) \<Rightarrow> py_error + ('ag, 't, 'inp) cat_dqn" where
  "cat_initialize w c vmin vmax ag n spec mbr examples =
     err_bind (initialize w c ag n spec mbr examples)
       (\<lambda>st. Inr (dqn.extend (st\<lparr>agent := give_V_min_max w (agent st) vmin vmax\<rparr>)
                     (cat_dqn.fields vmin vmax)))"

text \<open>The cross-entropy losses, \<open>p\<close> already clamped:
  \<open>losses = -torch.sum(target_p * torch.log(p), dim=1)\<close>, then \<open>losses *= weigths\<close> under
  prioritized replay.\<close>

definition Cat_losses :: "dqn_config \<Rightarrow> real list list \<Rightarrow> real list \<Rightarrow> real list list \<Rightarrow> real list" where
  "Cat_losses c p weigths target_p =
     (let losses = map2 (\<lambda>tp pr. - sum_list (map2 (\<lambda>t x. t * ln x) tp pr)) target_p p
      in if prioritized_replay c then map2 (*) losses weigths else losses)"

text \<open>The errors, \<open>p\<close> already clamped: \<open>target_p = torch.clamp(target_p, EPS, 1)\<close>,
  \<open>KL_div = torch.sum(target_p * (torch.log(target_p) - torch.log(p.detach())), dim=1)\<close>,
  \<open>KL_div = torch.clamp(KL_div, EPS, 1 / EPS)\<close>.\<close>

definition Cat_KL_div :: "real list list \<Rightarrow> real list list \<Rightarrow> real list" where
  "Cat_KL_div p target_p =
     (let target_p = map (map (\<lambda>x. clamp x EPS 1)) target_p;
          KL_div = map2 (\<lambda>tp pr. sum_list (map2 (\<lambda>t x. t * (ln t - ln x)) tp pr)) target_p p
      in map (\<lambda>k. clamp k EPS (1 / EPS)) KL_div)"

definition Cat_get_loss_values ::
  "('ag, 't, 'inp, 'q) world \<Rightarrow> dqn_config \<Rightarrow> bool \<Rightarrow> real list list \<Rightarrow> bool list
     \<Rightarrow> real list \<Rightarrow> real list list \<Rightarrow> py_error + real \<times> real list" where
  "Cat_get_loss_values w c mbr p dones weigths target_p =
     (let p = map (map (\<lambda>x. clamp x EPS 1)) p;
          losses = Cat_losses c p weigths target_p;
          KL_div = Cat_KL_div p target_p
      in if \<not> mbr then
           (let valid = valid_from_done w dones
            in Inr (valid_mean w losses valid, map2 (*) KL_div valid))
         else Inr (mean losses, KL_div))"

text \<open>\<open>torch.linspace(V_min, V_max, n_atoms)\<close>.\<close>

definition linspace :: "real \<Rightarrow> real \<Rightarrow> int \<Rightarrow> py_error + real list" where
  "linspace lo hi n =
     (if n < 0 then Inl RuntimeError
      else if n = 1 then Inr [lo]
      else Inr (map (\<lambda>i. lo + of_nat i * (hi - lo) / of_int (n - 1)) [0..<nat n]))"

text \<open>The contracted support of each data point:
  \<open>next_z = z * (discount ** n_step_return)\<close>,
  \<open>next_z = torch.ger(1 - samples_done_n.float(), next_z)\<close>,
  \<open>next_z = torch.clamp(ret + next_z, V_min, V_max)\<close>.\<close>

definition cat_next_z ::
  "real \<Rightarrow> real \<Rightarrow> real list \<Rightarrow> real \<Rightarrow> real list \<Rightarrow> bool list \<Rightarrow> real list list" where
  "cat_next_z vmin vmax z disc_n returns dones_n =
     (let next_z = map (\<lambda>zj. zj * disc_n) z;
          next_z = map (\<lambda>dn. map (\<lambda>nz. (1 - of_bool dn) * nz) next_z) dones_n
      in map2 (\<lambda>ret row. map (\<lambda>nz. clamp (ret + nz) vmin vmax) row) returns next_z)"

text \<open>The first lines of \<open>CategoricalDQN.loss\<close>: \<open>delta_z\<close>, the support \<open>z\<close> and
  \<open>next_z\<close>.\<close>

definition Cat_support ::
  "('ag, 't, 'inp, 'q) world \<Rightarrow> ('ag, 't, 'inp, 'z) cat_dqn_scheme \<Rightarrow> 'inp samples_from_replay
     \<Rightarrow> py_error + real \<times> real list \<times> real list list" where
  "Cat_support w st samples =
     (if n_atoms w (agent st) - 1 = 0 then Inl ZeroDivisionError
      else
        let delta_z = (V_max st - V_min st) / of_int (n_atoms w (agent st) - 1) in
        err_bind (linspace (V_min st) (V_max st) (n_atoms w (agent st)))
          (\<lambda>z.
        err_bind (py_pow (discount (config st)) (n_step_return (config st)))
          (\<lambda>disc_n.
             Inr (delta_z, z,
                  cat_next_z (V_min st) (V_max st) z disc_n (s_return samples) (done_n samples)))))"

text \<open>\<open>projection_coeffs[b][i][j] = clamp(1 - |next_z[b][j] - z[i]| / delta_z, 0, 1)\<close> and
  \<open>target_p[b][i] = sum_j target_p_unproj[b][j] * projection_coeffs[b][i][j]\<close>.\<close>

definition cat_project :: "real list \<Rightarrow> real \<Rightarrow> real list list \<Rightarrow> real list list \<Rightarrow> real list list" where
  "cat_project z delta_z next_z target_p_unproj =
     map2 (\<lambda>nz_row tp_row.
             map (\<lambda>zi. sum_list (map2 (\<lambda>tp nz. tp * clamp (1 - \<bar>nz - zi\<bar> / delta_z) 0 1)
                                    tp_row nz_row)) z)
       next_z target_p_unproj"

definition tensordot :: "real list list list \<Rightarrow> real list \<Rightarrow> real list list" where
  "tensordot ps z = map (map (\<lambda>pr. sum_list (map2 (*) pr z))) ps"

text \<open>Without prioritized replay \<open>CategoricalDQN.loss\<close> never binds
  \<open>samples_is_weights\<close>, and its call of \<open>_get_loss_values\<close> reads it.\<close>

definition Cat_loss ::
  "('ag, 't, 'inp, real list list list) world \<Rightarrow> ('ag, 't, 'inp, 'z) cat_dqn_scheme
     \<Rightarrow> 'inp samples_from_replay \<Rightarrow> py_error + real \<times> real list" where
  "Cat_loss w st samples =
     err_bind (if prioritized_replay (config st) then read_is_weights samples else Inr [])
       (\<lambda>samples_is_weights.
     err_bind (Cat_support w st samples)
       (\<lambda>(delta_z, z, next_z).
          let target_ps = target w (agent st) (target_inputs samples);
              next_qs = (if double_dqn (config st)
                         then tensordot (forward w (agent st) (target_inputs samples)) z
                         else tensordot target_ps z) in
     err_bind (map_err row_argmax next_qs)
       (\<lambda>next_a.
     err_bind (select_at_indexes next_a target_ps)
       (\<lambda>target_p_unproj.
          let target_p = cat_project z delta_z next_z target_p_unproj in
     err_bind (select_at_indexes (s_action samples) (forward w (agent st) (agent_inputs samples)))
       (\<lambda>p.
          if prioritized_replay (config st)
          then Cat_get_loss_values w (config st) (mid_batch_reset st) p (s_done samples)
                 samples_is_weights target_p
          else Inl UnboundLocalError)))))"

subsection \<open>\<open>_apply_optimization\<close> and \<open>optimize_agent\<close>\<close>

record OptInfo =
  loss :: "real list"
  gradNorm :: "real list"
  tdAbsErr :: "real list"

definition get_empty_optim_info :: OptInfo where
  "get_empty_optim_info = \<lparr>loss = [], gradNorm = [], tdAbsErr = []\<rparr>"

text \<open>The slice \<open>[::8]\<close>.\<close>

fun downsample8 :: "'a list \<Rightarrow> 'a list" where
  "downsample8 [] = []"
| "downsample8 (x # xs) = x # downsample8 (drop 7 xs)"

definition pre_optimize_process :: "('ag, 't, 'inp, 'z) dqn_scheme \<Rightarrow> ('ag, 't, 'inp, 'z) dqn_scheme" where
  "pre_optimize_process st = st"

text \<open>The method \<open>self.loss\<close> is \<open>DQN.loss\<close> or the override of \<open>CategoricalDQN\<close>: the
  argument \<open>loss_fn\<close>.\<close>

definition apply_optimization ::
  "(('ag, 't, 'inp, 'z) dqn_scheme \<Rightarrow> 'inp samples_from_replay \<Rightarrow> py_error + real \<times> real list)
     \<Rightarrow> ('ag, 't, 'inp, 'q) world \<Rightarrow> ('ag, 't, 'inp, 'z) dqn_scheme \<Rightarrow> 'inp samples_from_replay
     \<Rightarrow> OptInfo \<Rightarrow> (OptInfo, ('ag, 't, 'inp, 'z) dqn_scheme) outcome" where
  "apply_optimization loss_fn w st samples opt_info =
     (case loss_fn st samples of
        Inl e \<Rightarrow> (Inl e, st)
      | Inr (l, td_abs_errors) \<Rightarrow>
          let (ag, grad_norm) = optim_step w (agent st) samples;
              st = st\<lparr>agent := ag\<rparr>;
              st = (if prioritized_replay (config st)
                    then call_buffer (Update_batch_priorities td_abs_errors) st else st)
          in (Inr (opt_info\<lparr>loss := loss opt_info @ [l],
                             gradNorm := gradNorm opt_info @ [grad_norm],
                             tdAbsErr := tdAbsErr opt_info @ downsample8 td_abs_errors\<rparr>), st))"

text \<open>One pass of the loop body of \<open>optimize_agent\<close>.\<close>

definition optimize_step ::
  "(('ag, 't, 'inp, 'z) dqn_scheme \<Rightarrow> 'inp samples_from_replay \<Rightarrow> py_error + real \<times> real list)
     \<Rightarrow> ('ag, 't, 'inp, 'q) world \<Rightarrow> ('ag, 't, 'inp, 'z) dqn_scheme
     \<Rightarrow> OptInfo \<Rightarrow> (OptInfo, ('ag, 't, 'inp, 'z) dqn_scheme) outcome" where
  "optimize_step loss_fn w st opt_info =
     (let samples = sample_batch w (replay_buffer st) (batch_size (config st));
          st = call_buffer (Sample_batch (batch_size (config st)) samples) st
      in case apply_optimization loss_fn w st samples opt_info of
           (Inl e, st) \<Rightarrow> (Inl e, st)
         | (Inr opt_info, st) \<Rightarrow>
             let st = st\<lparr>update_counter := update_counter st + 1\<rparr>
             in if target_update_interval (config st) = 0 then (Inl ZeroDivisionError, st)
                else if update_counter st mod target_update_interval (config st) = 0
                then (Inr opt_info,
                      st\<lparr>agent := update_target w (agent st) (target_update_tau (config st))\<rparr>)
                else (Inr opt_info, st))"

fun optimize_loop ::
  "(('ag, 't, 'inp, 'z) dqn_scheme \<Rightarrow> 'inp samples_from_replay \<Rightarrow> py_error + real \<times> real list)
     \<Rightarrow> ('ag, 't, 'inp, 'q) world \<Rightarrow> nat \<Rightarrow> ('ag, 't, 'inp, 'z) dqn_scheme
     \<Rightarrow> OptInfo \<Rightarrow> (OptInfo, ('ag, 't, 'inp, 'z) dqn_scheme) outcome" where
  "optimize_loop loss_fn w 0 st opt_info = (Inr opt_info, st)"
| "optimize_loop loss_fn w (Suc k) st opt_info =
     (case optimize_step loss_fn w st opt_info of
        (Inl e, st) \<Rightarrow> (Inl e, st)
      | (Inr opt_info, st) \<Rightarrow> optimize_loop loss_fn w k st opt_info)"

definition optimize_agent ::
  "(('ag, 't, 'inp, 'z) dqn_scheme \<Rightarrow> 'inp samples_from_replay \<Rightarrow> py_error + real \<times> real list)
     \<Rightarrow> ('ag, 't, 'inp, 'q) world \<Rightarrow> ('ag, 't, 'inp, 'z) dqn_scheme
     \<Rightarrow> int \<Rightarrow> 't sampler_samples option \<Rightarrow> int option
     \<Rightarrow> (OptInfo, ('ag, 't, 'inp, 'z) dqn_scheme) outcome" where
  "optimize_agent loss_fn w st itr0 samples sampler_itr =
     (let itr = (case sampler_itr of None \<Rightarrow> itr0 | Some si \<Rightarrow> si)
      in case add_samples_to_buffer st itr samples of
           (Inl e, st) \<Rightarrow> (Inl e, st)
         | (Inr u, st) \<Rightarrow>
             let opt_info = get_empty_optim_info
             in if itr < min_itr_learn st then (Inr opt_info, st)
                else
                  let st = (if itr = min_itr_learn st then pre_optimize_process st else st)
                  in case optimize_loop loss_fn w (nat (updates_per_optimize st)) st opt_info of
                       (Inl e, st) \<Rightarrow> (Inl e, st)
                     | (Inr opt_info, st) \<Rightarrow>
                         (case update_itr_hyperparams st itr of
                            (Inl e, st) \<Rightarrow> (Inl e, st)
                          | (Inr u, st) \<Rightarrow> (Inr opt_info, st)))"

text \<open>The calls made on the replay buffer between two states of the algorithm object.\<close>

definition new_calls ::
  "('ag, 't, 'inp, 'z) dqn_scheme \<Rightarrow> ('ag, 't, 'inp, 'z) dqn_scheme \<Rightarrow> ('t, 'inp) rb_call list" where
  "new_calls st st' = drop (length (rb_calls (replay_buffer st))) (rb_calls (replay_buffer st'))"

subsection \<open>Concrete configurations\<close>

text \<open>The default arguments of \<open>DQN.__init__\<close>.\<close>

definition default_args :: dqn_config where
  "default_args =
     \<lparr>discount = 0.99, batch_size = 32, min_steps_learn = 50000, delta_clip = Some 1,
      replay_size = 1000000, replay_ratio = 8, target_update_tau = 1,
      target_update_interval = 312, n_step_return = 1, eps_steps = 1000000,
      double_dqn = False, prioritized_replay = False, pri_alpha = 0.6, pri_beta_init = 0.4,
      pri_beta_final = 1, pri_beta_steps = 50000000, default_priority = None,
      ReplayBufferCls = None, updates_per_sync = 1\<rparr>"

text \<open>
  Modelled from the spec: \<open>valid_from_done\<close> (rlpyt.algos.utils) and \<open>valid_mean\<close>
  (rlpyt.utils.tensor) are not among the sources, and the spec only names the validity
  masking they serve. The loss functions above take both from the record \<open>world\<close>, and
  the theorems hold for every such pair. At concrete inputs the following pair is
  used: the mask that the FIXME of \<open>DQN._get_loss_values\<close> describes (along the leading
  dimension, one up to and including the first done, zero after it), and the mean over
  the entries the mask keeps.
\<close>

fun valid_after :: "bool \<Rightarrow> bool list \<Rightarrow> real list" where
  "valid_after seen [] = []"
| "valid_after seen (d # ds) = (if seen then 0 else 1) # valid_after (seen \<or> d) ds"

definition utils_valid_from_done :: "bool list \<Rightarrow> real list" where
  "utils_valid_from_done dones = valid_after False dones"

definition tensor_valid_mean :: "real list \<Rightarrow> real list \<Rightarrow> real" where
  "tensor_valid_mean tensor valid = sum_list (map2 (*) tensor valid) / sum_list valid"

text \<open>A small world for the non-distributional algorithm: the agent is the number of
  optimizer steps taken, one action value grows with it, and every sampled batch holds
  the same two transitions, the first of them terminal within its window.\<close>

definition ex_batch :: "unit samples_from_replay" where
  "ex_batch =
     \<lparr>agent_inputs = (), target_inputs = (), s_action = [0, 1], s_return = [1, 2],
      s_done = [False, False], done_n = [True, False], is_weights = Some [1, 1]\<rparr>"

definition ex_world :: "(nat, nat, unit, real list list) world" where
  "ex_world =
     \<lparr>forward = (\<lambda>ag inp. [[of_nat ag, 3], [1, 2]]),
      target = (\<lambda>ag inp. [[2, 5], [4, 3]]),
      n_atoms = (\<lambda>ag. 0),
      update_target = (\<lambda>ag tau. ag),
      set_epsilon_itr_min_max = (\<lambda>ag lo hi. ag),
      give_V_min_max = (\<lambda>ag lo hi. ag),
      optim_step = (\<lambda>ag samples. (Suc ag, 0)),
      sample_batch = (\<lambda>rb n. ex_batch),
      valid_from_done = utils_valid_from_done,
      valid_mean = tensor_valid_mean\<rparr>"

definition ex_examples :: "string \<rightharpoonup> nat" where
  "ex_examples = [''observation'' \<mapsto> 0, ''action'' \<mapsto> 0, ''reward'' \<mapsto> 0, ''done'' \<mapsto> 0]"

definition ex_spec :: batch_spec where
  "ex_spec = \<lparr>bs_B = 1, bs_size = 2\<rparr>"

text \<open>\<open>DQN(batch_size=2, replay_ratio=2, min_steps_learn=4, discount=0.5,
  prioritized_replay=True, pri_beta_steps=8)\<close>.\<close>

definition ex_args :: dqn_config where
  "ex_args =
     default_args\<lparr>batch_size := 2, replay_ratio := 2, min_steps_learn := 4, discount := 0.5,
                  prioritized_replay := True, pri_beta_steps := 8\<rparr>"

definition ex_buffer :: "(nat, unit) replay_buffer_obj" where
  "ex_buffer =
     \<lparr>rb_cls = PrioritizedReplayFrameBuffer,
      rb_kwargs =
        [(''example'', KExample \<lparr>observation = 0, action = 0, reward = 0, stb_done = 0\<rparr>),
         (''size'', KInt 1000000), (''B'', KInt 1), (''discount'', KReal 0.5),
         (''n_step_return'', KInt 1), (''alpha'', KReal 0.6), (''beta'', KReal 0.4),
         (''default_priority'', KRealOpt (Some 1))],
      rb_calls = []\<rparr>"

text \<open>The object after \<open>initialize\<close> with these arguments and \<open>mid_batch_reset\<close> true.\<close>

definition ex_dqn :: "(nat, nat, unit) dqn" where
  "ex_dqn =
     \<lparr>config = DQN_init ex_args, agent = 0, n_itr = 10, sampler_bs = 2, mid_batch_reset = True,
      updates_per_optimize = 2, min_itr_learn = 2, pri_beta_itr = Some 4,
      replay_buffer = ex_buffer, update_counter = 0\<rparr>"

text \<open>The same object when \<open>min_steps_learn\<close> is 8 (then \<open>min_itr_learn\<close> is 4, as
  \<open>pri_beta_itr\<close>) and when it is 12 (\<open>min_itr_learn\<close> is 6, above \<open>pri_beta_itr\<close>).\<close>

definition ex_dqn_equal :: "(nat, nat, unit) dqn" where
  "ex_dqn_equal =
     ex_dqn\<lparr>config := DQN_init (ex_args\<lparr>min_steps_learn := 8\<rparr>), min_itr_learn := 4\<rparr>"

definition ex_dqn_late :: "(nat, nat, unit) dqn" where
  "ex_dqn_late =
     ex_dqn\<lparr>config := DQN_init (ex_args\<lparr>min_steps_learn := 12\<rparr>), min_itr_learn := 6\<rparr>"

definition ex_samples :: "nat sampler_samples" where
  "ex_samples =
     \<lparr>env = \<lparr>env_observation = 7, env_reward = 8, env_done = 9\<rparr>, agent_action = 6\<rparr>"

text \<open>A small world for the distributional algorithm, with two atoms and one action.\<close>

definition ex_cat_batch :: "unit samples_from_replay" where
  "ex_cat_batch =
     \<lparr>agent_inputs = (), target_inputs = (), s_action = [0], s_return = [- 10],
      s_done = [False], done_n = [True], is_weights = Some [1]\<rparr>"

definition ex_cat_world :: "(nat, nat, unit, real list list list) world" where
  "ex_cat_world =
     \<lparr>forward = (\<lambda>ag inp. [[[1, 0]]]),
      target = (\<lambda>ag inp. [[[1 / 2, 1 / 2]]]),
      n_atoms = (\<lambda>ag. 2),
      update_target = (\<lambda>ag tau. ag),
      set_epsilon_itr_min_max = (\<lambda>ag lo hi. ag),
      give_V_min_max = (\<lambda>ag lo hi. ag),
      optim_step = (\<lambda>ag samples. (Suc ag, 0)),
      sample_batch = (\<lambda>rb n. ex_cat_batch),
      valid_from_done = utils_valid_from_done,
      valid_mean = tensor_valid_mean\<rparr>"

definition ex_cat_dqn :: "(nat, nat, unit) cat_dqn" where
  "ex_cat_dqn = dqn.extend ex_dqn (cat_dqn.fields (- 10) 10)"

text \<open>The same in a batch of two transitions, the first of them done, for an object
  with \<open>mid_batch_reset\<close> false.\<close>

definition ex_cat_batch_pair :: "unit samples_from_replay" where
  "ex_cat_batch_pair =
     \<lparr>agent_inputs = (), target_inputs = (), s_action = [0, 0], s_return = [- 10, - 10],
      s_done = [True, False], done_n = [True, True], is_weights = Some [1, 1]\<rparr>"

definition ex_cat_world_pair :: "(nat, nat, unit, real list list list) world" where
  "ex_cat_world_pair =
     ex_cat_world\<lparr>forward := (\<lambda>ag inp. [[[1, 0]], [[1, 0]]]),
                   target := (\<lambda>ag inp. [[[1 / 2, 1 / 2]], [[1 / 2, 1 / 2]]]),
                   sample_batch := (\<lambda>rb n. ex_cat_batch_pair)\<rparr>"

definition ex_cat_dqn_no_reset :: "(nat, nat, unit) cat_dqn" where
  "ex_cat_dqn_no_reset =
     dqn.extend (ex_dqn\<lparr>mid_batch_reset := False\<rparr>) (cat_dqn.fields (- 10) 10)"

section \<open>Properties\<close>

subsection \<open>Replay buffer selection\<close>

lemma examples_to_buffer_ex:
  "examples_to_buffer ex_examples = Inr \<lparr>observation = 0, action = 0, reward = 0, stb_done = 0\<rparr>"
  by (simp add: examples_to_buffer_def ex_examples_def)

text \<open>
  Claim C7. \<open>initialize_replay_buffer\<close> picks the buffer class from the two flags
  \<open>prioritized_replay\<close> and \<open>async_\<close> alone, one of the four frame buffers, unless
  \<open>ReplayBufferCls\<close> was given, which then replaces the choice; the keyword arguments
  \<open>alpha = pri_alpha\<close>, \<open>beta = pri_beta_init\<close> and \<open>default_priority\<close> (which
  \<open>__init__\<close> set to \<open>delta_clip\<close> when it was \<open>None\<close>) are passed exactly when
  \<open>prioritized_replay\<close> is true.
\<close>
theorem initialize_replay_buffer_selection:
  assumes "initialize_replay_buffer (DQN_init args) examples spec asynch = Inr rb"
  shows "rb_cls rb =
           (case ReplayBufferCls args of
              Some cls \<Rightarrow> cls
            | None \<Rightarrow>
                if prioritized_replay args
                then (if asynch then AsyncPrioritizedReplayFrameBuffer
                      else PrioritizedReplayFrameBuffer)
                else (if asynch then AsyncUniformReplayFrameBuffer
                      else UniformReplayFrameBuffer))
       \<and> map_of (rb_kwargs rb) ''alpha'' =
           (if prioritized_replay args then Some (KReal (pri_alpha args)) else None)
       \<and> map_of (rb_kwargs rb) ''beta'' =
           (if prioritized_replay args then Some (KReal (pri_beta_init args)) else None)
       \<and> map_of (rb_kwargs rb) ''default_priority'' =
           (if prioritized_replay args
            then Some (KRealOpt (case default_priority args of
                                   None \<Rightarrow> delta_clip args | Some d \<Rightarrow> Some d))
            else None)"
proof -
  obtain ex where ex: "examples_to_buffer examples = Inr ex"
    using assms by (cases "examples_to_buffer examples") (simp_all add: initialize_replay_buffer_def)
  have rb: "rb = \<lparr>rb_cls = select_ReplayCls (DQN_init args) asynch,
                  rb_kwargs = replay_kwargs (DQN_init args) ex spec, rb_calls = []\<rparr>"
    using assms ex by (simp add: initialize_replay_buffer_def)
  have flags: "prioritized_replay (DQN_init args) = prioritized_replay args"
    "ReplayBufferCls (DQN_init args) = ReplayBufferCls args"
    "pri_alpha (DQN_init args) = pri_alpha args"
    "pri_beta_init (DQN_init args) = pri_beta_init args"
    "default_priority (DQN_init args) =
       (case default_priority args of None \<Rightarrow> delta_clip args | Some d \<Rightarrow> Some d)"
    by (simp_all add: DQN_init_def split: option.splits)
  show ?thesis
    unfolding rb by (simp add: select_ReplayCls_def replay_kwargs_def flags split: option.splits)
qed

theorem initialize_replay_buffer_selection_witness:
  "initialize_replay_buffer (DQN_init ex_args) ex_examples ex_spec False = Inr ex_buffer
   \<and> rb_cls ex_buffer = PrioritizedReplayFrameBuffer
   \<and> map_of (rb_kwargs ex_buffer) ''alpha'' = Some (KReal 0.6)
   \<and> map_of (rb_kwargs ex_buffer) ''beta'' = Some (KReal 0.4)
   \<and> map_of (rb_kwargs ex_buffer) ''default_priority'' = Some (KRealOpt (Some 1))"
proof -
  have h: "initialize_replay_buffer (DQN_init ex_args) ex_examples ex_spec False = Inr ex_buffer"
    by (simp add: initialize_replay_buffer_def examples_to_buffer_ex replay_kwargs_def
        select_ReplayCls_def DQN_init_def ex_args_def default_args_def ex_spec_def ex_buffer_def)
  show ?thesis
    using initialize_replay_buffer_selection [OF h] h
    by (simp add: ex_args_def default_args_def)
qed

subsection \<open>The beta schedule\<close>

lemma beta_prog_zero_iff:
  "beta_prog itr mil pbi = Inl ZeroDivisionError \<longleftrightarrow> mil = pbi"
  by (simp add: beta_prog_def)

lemma beta_prog_range:
  assumes "mil \<noteq> pbi" "itr \<le> pbi \<or> mil < pbi"
  shows "\<exists>prog. beta_prog itr mil pbi = Inr prog \<and> 0 \<le> prog \<and> prog \<le> 1"
proof (cases "mil < pbi")
  case True
  then show ?thesis by (simp add: beta_prog_def)
next
  case False
  with assms have "pbi < mil" "itr \<le> pbi" by auto
  then show ?thesis by (simp add: beta_prog_def)
qed

lemma beta_prog_as_claimed:
  assumes "mil < pbi"
  shows "beta_prog itr mil pbi =
           Inr (min 1 (max 0 (of_int (itr - mil) / of_int (pbi - mil))))"
proof -
  have pos: "0 < (of_int (pbi - mil) :: real)" using assms by simp
  have "(of_int (max 0 (itr - mil)) :: real) / of_int (pbi - mil)
          = max 0 (of_int (itr - mil) / of_int (pbi - mil))"
  proof (cases "itr \<le> mil")
    case True
    then have "(of_int (itr - mil) :: real) / of_int (pbi - mil) \<le> 0"
      using pos by (simp add: divide_nonpos_pos)
    with True show ?thesis by (simp add: max_def)
  next
    case False
    then have "0 \<le> (of_int (itr - mil) :: real) / of_int (pbi - mil)"
      using pos by simp
    with False show ?thesis by (simp add: max_def)
  qed
  then show ?thesis using assms by (simp add: beta_prog_def)
qed

lemma interpolation_between:
  fixes prog a b :: real
  assumes "0 \<le> prog" "prog \<le> 1"
  shows "min a b \<le> prog * b + (1 - prog) * a" "prog * b + (1 - prog) * a \<le> max a b"
proof -
  have eq: "prog * b + (1 - prog) * a = a + prog * (b - a)" by (simp add: algebra_simps)
  show "min a b \<le> prog * b + (1 - prog) * a"
  proof (cases "a \<le> b")
    case True
    then have "0 \<le> prog * (b - a)" using assms by simp
    with True show ?thesis unfolding eq by simp
  next
    case False
    then have "1 * (b - a) \<le> prog * (b - a)"
      using assms by (intro mult_right_mono_neg) simp_all
    then have "b \<le> a + prog * (b - a)" by simp
    with False show ?thesis unfolding eq by (simp add: min_def)
  qed
  show "prog * b + (1 - prog) * a \<le> max a b"
  proof (cases "a \<le> b")
    case True
    then have "prog * (b - a) \<le> b - a" using assms
      by (simp add: mult_left_le_one_le)
    with True show ?thesis unfolding eq by simp
  next
    case False
    then have "prog * (b - a) \<le> 0" using assms by (simp add: mult_nonneg_nonpos)
    with False show ?thesis unfolding eq by simp
  qed
qed


text \<open>
  Claim C9. Whenever the annealing branch of \<open>update_itr_hyperparams\<close> runs (prioritized
  replay and \<open>itr \<le> pri_beta_itr\<close>), it divides by \<open>pri_beta_itr - min_itr_learn\<close>: the
  call raises \<open>ZeroDivisionError\<close> exactly when the two are equal, which nothing
  checks before; when \<open>min_itr_learn < pri_beta_itr\<close> the division is defined, \<open>prog\<close>
  lies in \<open>[0, 1]\<close> and the interpolated beta is set. \<open>optim_initialize\<close> computes
  \<open>pri_beta_itr = max(1, pri_beta_steps // sampler_bs)\<close>.
\<close>
theorem beta_divisor_precondition:
  assumes "prioritized_replay (config st)" "pri_beta_itr st = Some pbi" "itr \<le> pbi"
  shows "(fst (update_itr_hyperparams st itr) = Inl ZeroDivisionError
            \<longleftrightarrow> min_itr_learn st = pbi)
       \<and> (min_itr_learn st < pbi \<longrightarrow>
            (case beta_prog itr (min_itr_learn st) pbi of
               Inl e \<Rightarrow> False
             | Inr prog \<Rightarrow>
                 0 \<le> prog \<and> prog \<le> 1
                 \<and> update_itr_hyperparams st itr =
                     (Inr (), call_buffer (Set_beta (prog * pri_beta_final (config st)
                                             + (1 - prog) * pri_beta_init (config st))) st)))
       \<and> (optim_initialize st0 = Inr st \<longrightarrow>
            pbi = max 1 (pri_beta_steps (config st0) div sampler_bs st0))"
proof (intro conjI impI)
  show "fst (update_itr_hyperparams st itr) = Inl ZeroDivisionError \<longleftrightarrow> min_itr_learn st = pbi"
  proof (cases "min_itr_learn st = pbi")
    case True
    then show ?thesis using assms by (simp add: update_itr_hyperparams_def beta_prog_def)
  next
    case False
    then obtain prog where "beta_prog itr (min_itr_learn st) pbi = Inr prog"
      using beta_prog_range [of "min_itr_learn st" pbi itr] assms by auto
    with False show ?thesis using assms by (simp add: update_itr_hyperparams_def Let_def)
  qed
next
  assume lt: "min_itr_learn st < pbi"
  then obtain prog where p: "beta_prog itr (min_itr_learn st) pbi = Inr prog" "0 \<le> prog" "prog \<le> 1"
    using beta_prog_range [of "min_itr_learn st" pbi itr] by auto
  then show "case beta_prog itr (min_itr_learn st) pbi of
               Inl e \<Rightarrow> False
             | Inr prog \<Rightarrow>
                 0 \<le> prog \<and> prog \<le> 1
                 \<and> update_itr_hyperparams st itr =
                     (Inr (), call_buffer (Set_beta (prog * pri_beta_final (config st)
                                             + (1 - prog) * pri_beta_init (config st))) st)"
    using assms by (simp add: update_itr_hyperparams_def Let_def)
next
  assume "optim_initialize st0 = Inr st"
  then show "pbi = max 1 (pri_beta_steps (config st0) div sampler_bs st0)"
    using assms by (auto simp: optim_initialize_def split: if_splits)
qed

theorem beta_divisor_precondition_witness:
  "prioritized_replay (config ex_dqn) \<and> pri_beta_itr ex_dqn = Some 4 \<and> (3::int) \<le> 4
   \<and> fst (update_itr_hyperparams ex_dqn 3) \<noteq> Inl ZeroDivisionError
   \<and> beta_prog 3 2 4 = Inr (1 / 2)
   \<and> update_itr_hyperparams ex_dqn 3 = (Inr (), call_buffer (Set_beta (7 / 10)) ex_dqn)"
proof -
  have h: "prioritized_replay (config ex_dqn)" "pri_beta_itr ex_dqn = Some 4" "(3::int) \<le> 4"
    by (simp_all add: ex_dqn_def DQN_init_def ex_args_def default_args_def)
  have m: "min_itr_learn ex_dqn = 2" by (simp add: ex_dqn_def)
  have c: "pri_beta_final (config ex_dqn) = 1" "pri_beta_init (config ex_dqn) = 0.4"
    by (simp_all add: ex_dqn_def DQN_init_def ex_args_def default_args_def)
  have b: "beta_prog 3 2 4 = Inr (1 / 2)" by (simp add: beta_prog_def)
  show ?thesis
    using beta_divisor_precondition [OF h, of ex_dqn] h
    by (simp add: m b c)
qed

lemma ex_dqn_equal_reachable:
  "initialize ex_world (DQN_init (ex_args\<lparr>min_steps_learn := 8\<rparr>)) 0 10 ex_spec True ex_examples
     = Inr ex_dqn_equal"
  by (simp add: initialize_def DQN_init_def ex_args_def default_args_def ex_spec_def
      ex_examples_def ex_dqn_def ex_dqn_equal_def ex_world_def py_round_def
      initialize_replay_buffer_def examples_to_buffer_def replay_kwargs_def select_ReplayCls_def
      optim_initialize_def ex_buffer_def)

text \<open>
  Claim C2, amended. Under prioritized replay, for \<open>itr \<le> pri_beta_itr\<close> and
  \<open>min_itr_learn < pri_beta_itr\<close>, \<open>update_itr_hyperparams\<close> calls \<open>set_beta\<close> with
  \<open>prog * pri_beta_final + (1 - prog) * pri_beta_init\<close> where
  \<open>prog = min(1, max(0, (itr - min_itr_learn) / (pri_beta_itr - min_itr_learn)))\<close>; that
  value lies between \<open>pri_beta_init\<close> and \<open>pri_beta_final\<close> and is \<open>pri_beta_final\<close> at
  \<open>itr = pri_beta_itr\<close>. For \<open>itr > pri_beta_itr\<close>, and without prioritized replay,
  \<open>set_beta\<close> is not called and the object is unchanged.
\<close>
theorem update_itr_hyperparams_anneals_beta:
  "(prioritized_replay (config st) \<longrightarrow> pri_beta_itr st = Some pbi \<longrightarrow> itr \<le> pbi \<longrightarrow>
      min_itr_learn st < pbi \<longrightarrow>
      (let prog = min 1 (max 0 (of_int (itr - min_itr_learn st) / of_int (pbi - min_itr_learn st)));
           new_beta = prog * pri_beta_final (config st) + (1 - prog) * pri_beta_init (config st)
       in update_itr_hyperparams st itr = (Inr (), call_buffer (Set_beta new_beta) st)
          \<and> min (pri_beta_init (config st)) (pri_beta_final (config st)) \<le> new_beta
          \<and> new_beta \<le> max (pri_beta_init (config st)) (pri_beta_final (config st))
          \<and> (itr = pbi \<longrightarrow> new_beta = pri_beta_final (config st))))
   \<and> (prioritized_replay (config st) \<longrightarrow> pri_beta_itr st = Some pbi \<longrightarrow> pbi < itr \<longrightarrow>
        update_itr_hyperparams st itr = (Inr (), st))
   \<and> (\<not> prioritized_replay (config st) \<longrightarrow> update_itr_hyperparams st itr = (Inr (), st))"
proof (intro conjI impI)
  assume a: "prioritized_replay (config st)" "pri_beta_itr st = Some pbi" "itr \<le> pbi"
    "min_itr_learn st < pbi"
  define prog :: real
    where "prog = min 1 (max 0 (of_int (itr - min_itr_learn st) / of_int (pbi - min_itr_learn st)))"
  have bp: "beta_prog itr (min_itr_learn st) pbi = Inr prog"
    unfolding prog_def using a(4) by (rule beta_prog_as_claimed)
  have range: "0 \<le> prog" "prog \<le> 1" by (simp_all add: prog_def)
  have upd: "update_itr_hyperparams st itr =
               (Inr (), call_buffer (Set_beta (prog * pri_beta_final (config st)
                                       + (1 - prog) * pri_beta_init (config st))) st)"
    using a bp by (simp add: update_itr_hyperparams_def Let_def)
  have final: "prog = 1" if "itr = pbi"
    using that a(4) by (simp add: prog_def)
  show "let prog = min 1 (max 0 (of_int (itr - min_itr_learn st) / of_int (pbi - min_itr_learn st)));
            new_beta = prog * pri_beta_final (config st) + (1 - prog) * pri_beta_init (config st)
        in update_itr_hyperparams st itr = (Inr (), call_buffer (Set_beta new_beta) st)
           \<and> min (pri_beta_init (config st)) (pri_beta_final (config st)) \<le> new_beta
           \<and> new_beta \<le> max (pri_beta_init (config st)) (pri_beta_final (config st))
           \<and> (itr = pbi \<longrightarrow> new_beta = pri_beta_final (config st))"
    unfolding Let_def prog_def [symmetric]
    using upd interpolation_between [OF range] final by simp
next
  assume "prioritized_replay (config st)" "pri_beta_itr st = Some pbi" "pbi < itr"
  then show "update_itr_hyperparams st itr = (Inr (), st)"
    by (simp add: update_itr_hyperparams_def)
next
  assume "\<not> prioritized_replay (config st)"
  then show "update_itr_hyperparams st itr = (Inr (), st)"
    by (simp add: update_itr_hyperparams_def)
qed

lemma ex_dqn_fields:
  "prioritized_replay (config ex_dqn)" "pri_beta_itr ex_dqn = Some 4" "min_itr_learn ex_dqn = 2"
  "pri_beta_final (config ex_dqn) = 1" "pri_beta_init (config ex_dqn) = 2 / 5"
  by (simp_all add: ex_dqn_def DQN_init_def ex_args_def default_args_def)

theorem update_itr_hyperparams_anneals_beta_witness:
  "prioritized_replay (config ex_dqn) \<and> pri_beta_itr ex_dqn = Some 4 \<and> min_itr_learn ex_dqn < 4
   \<and> update_itr_hyperparams ex_dqn 4 = (Inr (), call_buffer (Set_beta 1) ex_dqn)
   \<and> update_itr_hyperparams ex_dqn 5 = (Inr (), ex_dqn)"
  using update_itr_hyperparams_anneals_beta [of ex_dqn 4 4]
    update_itr_hyperparams_anneals_beta [of ex_dqn 4 5]
  by (simp add: ex_dqn_fields)

text \<open>
  Claim C2 as stated fails without \<open>min_itr_learn < pri_beta_itr\<close>. When the two are equal
  (\<open>min_steps_learn = pri_beta_steps = 8\<close>, sampler batch size 2) the call at
  \<open>itr = pri_beta_itr = 4\<close> raises \<open>ZeroDivisionError\<close> and sets no beta. When
  \<open>min_itr_learn = 6\<close> is above \<open>pri_beta_itr = 4\<close>, the call at \<open>itr = 4\<close> sets
  \<open>pri_beta_init = 2/5\<close> (the \<open>max\<close> of the code is on the numerator), where the formula
  of the claim gives \<open>pri_beta_final = 1\<close>.
\<close>
theorem update_itr_hyperparams_counterexample:
  "prioritized_replay (config ex_dqn_equal) \<and> pri_beta_itr ex_dqn_equal = Some 4
   \<and> update_itr_hyperparams ex_dqn_equal 4 = (Inl ZeroDivisionError, ex_dqn_equal)
   \<and> prioritized_replay (config ex_dqn_late) \<and> pri_beta_itr ex_dqn_late = Some 4
   \<and> min_itr_learn ex_dqn_late = 6
   \<and> update_itr_hyperparams ex_dqn_late 4 = (Inr (), call_buffer (Set_beta (2 / 5)) ex_dqn_late)
   \<and> min 1 (max 0 (of_int (4 - 6) / of_int (4 - 6))) * pri_beta_final (config ex_dqn_late)
       + (1 - min 1 (max 0 (of_int (4 - 6) / of_int (4 - 6)))) * pri_beta_init (config ex_dqn_late)
       = (1 :: real)"
  by (simp add: update_itr_hyperparams_def beta_prog_def ex_dqn_equal_def ex_dqn_late_def
      ex_dqn_def DQN_init_def ex_args_def default_args_def)

subsection \<open>Loss values and priorities\<close>

lemma err_bind_Inr_iff:
  "err_bind m f = Inr r \<longleftrightarrow> (\<exists>x. m = Inr x \<and> f x = Inr r)"
  by (cases m) (simp_all add: err_bind_def)

lemma clamp_range:
  assumes "lo \<le> hi"
  shows "lo \<le> clamp x lo hi" "clamp x lo hi \<le> hi"
  using assms by (simp_all add: clamp_def)

lemma EPS_pos: "0 < EPS"
  by (simp add: EPS_def)

lemma EPS_le_inverse: "EPS \<le> 1 / EPS"
  by (simp add: EPS_def)

lemma Cat_KL_div_range:
  assumes "k \<in> set (Cat_KL_div p target_p)"
  shows "EPS \<le> k" "k \<le> 1 / EPS"
  using assms clamp_range [OF EPS_le_inverse] by (auto simp: Cat_KL_div_def Let_def)

lemma DQN_get_loss_values_Inr:
  assumes "DQN_get_loss_values c mbr q dones weigths targ = Inr (l, errs)"
  shows "mbr"
    and "errs = (case delta_clip c of
                   None \<Rightarrow> map abs (map2 (-) targ q)
                 | Some dc \<Rightarrow> map (\<lambda>a. clamp a 0 dc) (map abs (map2 (-) targ q)))"
  using assms by (auto simp: DQN_get_loss_values_def Let_def split: if_splits)

lemma DQN_loss_Inr:
  assumes "DQN_loss w st samples = Inr r"
  shows "\<exists>q weigths y. DQN_get_loss_values (config st) (mid_batch_reset st) q (s_done samples)
                          weigths y = Inr r"
  using assms unfolding DQN_loss_def err_bind_Inr_iff by blast

lemma Cat_loss_Inr:
  assumes "Cat_loss w st samples = Inr r"
  shows "\<exists>p weigths target_p. Cat_get_loss_values w (config st) (mid_batch_reset st) p
                                 (s_done samples) weigths target_p = Inr r"
proof -
  from assms obtain siw sup where
    "(case sup of (delta_z, z, next_z) \<Rightarrow>
        let target_ps = target w (agent st) (target_inputs samples);
            next_qs = (if double_dqn (config st)
                       then tensordot (forward w (agent st) (target_inputs samples)) z
                       else tensordot target_ps z) in
        err_bind (map_err row_argmax next_qs)
          (\<lambda>next_a.
        err_bind (select_at_indexes next_a target_ps)
          (\<lambda>target_p_unproj.
             let target_p = cat_project z delta_z next_z target_p_unproj in
        err_bind (select_at_indexes (s_action samples) (forward w (agent st) (agent_inputs samples)))
          (\<lambda>p.
             if prioritized_replay (config st)
             then Cat_get_loss_values w (config st) (mid_batch_reset st) p (s_done samples)
                    siw target_p
             else Inl UnboundLocalError)))) = Inr r"
    unfolding Cat_loss_def err_bind_Inr_iff by blast
  then show ?thesis
    by (cases sup) (auto simp: Let_def err_bind_Inr_iff split: if_splits)
qed

lemma ex_args_fields:
  "prioritized_replay (DQN_init ex_args)" "delta_clip (DQN_init ex_args) = Some 1"
  "discount (DQN_init ex_args) = 1 / 2" "n_step_return (DQN_init ex_args) = 1"
  "\<not> double_dqn (DQN_init ex_args)"
  by (simp_all add: DQN_init_def ex_args_def default_args_def)

lemma ex_cat_world_fields:
  "valid_from_done ex_cat_world = utils_valid_from_done"
  "valid_mean ex_cat_world = tensor_valid_mean"
  "n_atoms ex_cat_world = (\<lambda>ag. 2)"
  "forward ex_cat_world = (\<lambda>ag inp. [[[1, 0]]])"
  "target ex_cat_world = (\<lambda>ag inp. [[[1 / 2, 1 / 2]]])"
  by (simp_all add: ex_cat_world_def)

lemma Cat_get_loss_values_ex:
  "Cat_get_loss_values ex_cat_world (DQN_init ex_args) False [[1, 0], [1, 0]] [True, False]
     [1, 1] [[1, 0], [1, 0]] = Inr (0, [EPS, 0])"
  by (simp add: Cat_get_loss_values_def Cat_losses_def Cat_KL_div_def clamp_def EPS_def
      ex_args_fields ex_cat_world_fields utils_valid_from_done_def tensor_valid_mean_def)

text \<open>
  Claim C4. When \<open>mid_batch_reset\<close> is false, \<open>DQN._get_loss_values\<close> raises
  \<open>NotImplementedError\<close> on every input, whereas \<open>CategoricalDQN._get_loss_values\<close>
  takes the mask \<open>valid_from_done(done)\<close>, returns the masked mean
  \<open>valid_mean(losses, valid)\<close> and multiplies the KL errors by the mask.
\<close>
theorem loss_values_without_mid_batch_reset:
  assumes "\<not> mbr"
  shows "DQN_get_loss_values c mbr q dones weigths targ = Inl NotImplementedError
       \<and> Cat_get_loss_values w c mbr p dones weigths target_p =
           (let p = map (map (\<lambda>x. clamp x EPS 1)) p;
                valid = valid_from_done w dones
            in Inr (valid_mean w (Cat_losses c p weigths target_p) valid,
                    map2 (*) (Cat_KL_div p target_p) valid))"
  using assms by (simp add: DQN_get_loss_values_def Cat_get_loss_values_def Let_def)

theorem loss_values_without_mid_batch_reset_witness:
  "DQN_get_loss_values (DQN_init ex_args) False [0, 2] [True, False] [1, 1] [1, 4]
     = Inl NotImplementedError
   \<and> Cat_get_loss_values ex_cat_world (DQN_init ex_args) False [[1, 0], [1, 0]] [True, False]
       [1, 1] [[1, 0], [1, 0]]
     = Inr (tensor_valid_mean [0, 0] [1, 0], map2 (*) [EPS, EPS] [1, 0])"
proof -
  have h: "\<not> False" by simp
  have l: "Cat_losses (DQN_init ex_args) [[1, EPS], [1, EPS]] [1, 1] [[1, 0], [1, 0]] = [0, 0]"
    by (simp add: Cat_losses_def ex_args_fields)
  have k: "Cat_KL_div [[1, EPS], [1, EPS]] [[1, 0], [1, 0]] = [EPS, EPS]"
    by (simp add: Cat_KL_div_def clamp_def EPS_def)
  have c: "clamp 1 EPS 1 = 1" "clamp 0 EPS 1 = EPS"
    by (simp_all add: clamp_def EPS_def)
  have v: "utils_valid_from_done [True, False] = [1, 0]"
    by (simp add: utils_valid_from_done_def)
  show ?thesis
    using loss_values_without_mid_batch_reset [OF h, where c = "DQN_init ex_args"
        and q = "[0, 2]" and dones = "[True, False]" and weigths = "[1, 1]" and targ = "[1, 4]"
        and w = ex_cat_world and p = "[[1, 0], [1, 0]]" and target_p = "[[1, 0], [1, 0]]"]
    by (simp add: Let_def c l k v ex_cat_world_fields)
qed

text \<open>
  Claim C8, amended. \<open>CategoricalDQN._get_loss_values\<close> always returns, and clamps the
  KL errors to \<open>[1e-6, 1e6]\<close>. With \<open>mid_batch_reset\<close> true these clamped values are
  the errors returned, all positive and bounded. With \<open>mid_batch_reset\<close> false each
  returned error is a clamped value times its entry of the validity mask: for a mask
  of zeros and ones it is 0 or lies in \<open>[1e-6, 1e6]\<close>.
\<close>
theorem categorical_errors_clamped:
  "case Cat_get_loss_values w c mbr p dones weigths target_p of
     Inl e \<Rightarrow> False
   | Inr (l, errs) \<Rightarrow>
       (mbr \<longrightarrow> (\<forall>e\<in>set errs. EPS \<le> e \<and> e \<le> 1 / EPS))
       \<and> (\<not> mbr \<longrightarrow>
            (\<exists>ks. errs = map2 (*) ks (valid_from_done w dones)
                   \<and> (\<forall>k\<in>set ks. EPS \<le> k \<and> k \<le> 1 / EPS)))
       \<and> (\<not> mbr \<longrightarrow> (\<forall>v\<in>set (valid_from_done w dones). v = 0 \<or> v = 1) \<longrightarrow>
            (\<forall>e\<in>set errs. e = 0 \<or> (EPS \<le> e \<and> e \<le> 1 / EPS)))"
proof (cases mbr)
  case True
  then show ?thesis
    using Cat_KL_div_range by (auto simp: Cat_get_loss_values_def Let_def)
next
  case False
  define ks where "ks = Cat_KL_div (map (map (\<lambda>x. clamp x EPS 1)) p) target_p"
  have r: "\<forall>k\<in>set ks. EPS \<le> k \<and> k \<le> 1 / EPS"
    using Cat_KL_div_range by (auto simp: ks_def)
  have eq: "Cat_get_loss_values w c mbr p dones weigths target_p =
              Inr (valid_mean w (Cat_losses c (map (map (\<lambda>x. clamp x EPS 1)) p) weigths target_p)
                     (valid_from_done w dones),
                   map2 (*) ks (valid_from_done w dones))"
    using False by (simp add: Cat_get_loss_values_def Let_def ks_def)
  have masked: "e = 0 \<or> (EPS \<le> e \<and> e \<le> 1 / EPS)"
    if m: "\<forall>v\<in>set (valid_from_done w dones). v = 0 \<or> v = 1"
      and e: "e \<in> set (map2 (*) ks (valid_from_done w dones))" for e
  proof -
    from e obtain k v where kv: "(k, v) \<in> set (zip ks (valid_from_done w dones))" "e = k * v"
      by auto
    then have "k \<in> set ks" "v \<in> set (valid_from_done w dones)"
      by (auto dest: set_zip_leftD set_zip_rightD)
    with r m kv(2) show ?thesis by auto
  qed
  show ?thesis
    unfolding eq using False r masked by auto
qed

theorem categorical_errors_clamped_witness:
  "Cat_get_loss_values ex_cat_world (DQN_init ex_args) True [[1, 0]] [False] [1] [[1, 0]]
     = Inr (0, [EPS])
   \<and> EPS \<le> EPS \<and> EPS \<le> 1 / EPS"
proof -
  have v: "Cat_get_loss_values ex_cat_world (DQN_init ex_args) True [[1, 0]] [False] [1] [[1, 0]]
             = Inr (0, [EPS])"
    by (simp add: Cat_get_loss_values_def Cat_losses_def Cat_KL_div_def clamp_def EPS_def
        ex_args_fields mean_def)
  show ?thesis
    using categorical_errors_clamped [where w = ex_cat_world and c = "DQN_init ex_args"
        and mbr = True and p = "[[1, 0]]" and dones = "[False]" and weigths = "[1]"
        and target_p = "[[1, 0]]"]
    by (simp add: v)
qed

text \<open>
  Claim C8 as stated fails when \<open>mid_batch_reset\<close> is false: for two samples of which
  the first is done, the mask is \<open>[1, 0]\<close> and the second error returned is 0, below
  \<open>1e-6\<close>.
\<close>
theorem categorical_errors_counterexample:
  "Cat_get_loss_values ex_cat_world (DQN_init ex_args) False [[1, 0], [1, 0]] [True, False]
     [1, 1] [[1, 0], [1, 0]] = Inr (0, [EPS, 0])
   \<and> \<not> EPS \<le> (0::real)"
  by (simp add: Cat_get_loss_values_ex) (simp add: EPS_def)

lemma ex_world_fields:
  "forward ex_world = (\<lambda>ag inp. [[of_nat ag, 3], [1, 2]])"
  "target ex_world = (\<lambda>ag inp. [[2, 5], [4, 3]])"
  "optim_step ex_world = (\<lambda>ag samples. (Suc ag, 0))"
  "sample_batch ex_world = (\<lambda>rb n. ex_batch)"
  "update_target ex_world = (\<lambda>ag tau. ag)"
  by (simp_all add: ex_world_def)

lemma ex_batch_fields:
  "s_action ex_batch = [0, 1]" "s_return ex_batch = [1, 2]" "s_done ex_batch = [False, False]"
  "done_n ex_batch = [True, False]" "is_weights ex_batch = Some [1, 1]"
  "agent_inputs ex_batch = ()" "target_inputs ex_batch = ()"
  by (simp_all add: ex_batch_def)

lemma DQN_loss_ex:
  assumes "config st = DQN_init ex_args" "mid_batch_reset st" "agent st = 0"
  shows "DQN_loss ex_world st ex_batch = Inr (1, [1, 1])"
  using assms
  by (simp add: DQN_loss_def DQN_y_def DQN_target_q_def DQN_get_loss_values_def target_y_def
      read_is_weights_def select_at_indexes_def row_max_def py_pow_def err_bind_def huber_def
      clamp_def mean_def ex_args_fields ex_world_fields ex_batch_fields)

lemma DQN_loss_ex_1:
  assumes "config st = DQN_init ex_args" "mid_batch_reset st" "agent st = 1"
  shows "DQN_loss ex_world st ex_batch = Inr (3 / 4, [0, 1])"
  using assms
  by (simp add: DQN_loss_def DQN_y_def DQN_target_q_def DQN_get_loss_values_def target_y_def
      read_is_weights_def select_at_indexes_def row_max_def py_pow_def err_bind_def huber_def
      clamp_def mean_def ex_args_fields ex_world_fields ex_batch_fields)

lemma ex_cat_batch_fields:
  "s_action ex_cat_batch = [0]" "s_return ex_cat_batch = [- 10]" "s_done ex_cat_batch = [False]"
  "done_n ex_cat_batch = [True]" "is_weights ex_cat_batch = Some [1]"
  "agent_inputs ex_cat_batch = ()" "target_inputs ex_cat_batch = ()"
  by (simp_all add: ex_cat_batch_def)

lemma ex_cat_dqn_fields:
  "config ex_cat_dqn = DQN_init ex_args" "mid_batch_reset ex_cat_dqn" "agent ex_cat_dqn = 0"
  "V_min ex_cat_dqn = - 10" "V_max ex_cat_dqn = 10"
  by (simp_all add: ex_cat_dqn_def ex_dqn_def dqn.defs cat_dqn.defs)

lemma Cat_support_ex:
  "Cat_support ex_cat_world ex_cat_dqn ex_cat_batch = Inr (20, [- 10, 10], [[- 10, - 10]])"
  by (simp add: Cat_support_def linspace_def py_pow_def cat_next_z_def clamp_def err_bind_def
      ex_cat_world_fields ex_cat_dqn_fields ex_cat_batch_fields ex_args_fields
      upt_conv_Cons)

lemma Cat_loss_ex:
  "Cat_loss ex_cat_world ex_cat_dqn ex_cat_batch = Inr (0, [EPS])"
  by (simp add: Cat_loss_def Cat_support_ex read_is_weights_def tensordot_def row_argmax_def
      select_at_indexes_def cat_project_def clamp_def err_bind_def Cat_get_loss_values_def
      Cat_losses_def Cat_KL_div_def mean_def EPS_def
      ex_cat_world_fields ex_cat_dqn_fields ex_cat_batch_fields ex_args_fields)

lemma DQN_errors_nonneg:
  assumes "DQN_get_loss_values c mbr q dones weigths targ = Inr (l, errs)"
    and "\<forall>dc. delta_clip c = Some dc \<longrightarrow> 0 \<le> dc"
    and "e \<in> set errs"
  shows "0 \<le> e" and "\<forall>dc. delta_clip c = Some dc \<longrightarrow> e \<le> dc"
proof -
  note errs = DQN_get_loss_values_Inr(2) [OF assms(1)]
  show "0 \<le> e"
  proof (cases "delta_clip c")
    case None
    with errs assms(3) show ?thesis by auto
  next
    case (Some dc)
    with assms(2) have "0 \<le> dc" by simp
    with errs Some assms(3) clamp_range(1) [of 0 dc] show ?thesis by auto
  qed
  show "\<forall>dc. delta_clip c = Some dc \<longrightarrow> e \<le> dc"
  proof (intro allI impI)
    fix dc assume dc: "delta_clip c = Some dc"
    with assms(2) have "0 \<le> dc" by simp
    with errs dc assms(3) clamp_range(2) [of 0 dc] show "e \<le> dc" by auto
  qed
qed

lemma ex_cat_world_pair_fields:
  "valid_from_done ex_cat_world_pair = utils_valid_from_done"
  "valid_mean ex_cat_world_pair = tensor_valid_mean"
  "n_atoms ex_cat_world_pair = (\<lambda>ag. 2)"
  "forward ex_cat_world_pair = (\<lambda>ag inp. [[[1, 0]], [[1, 0]]])"
  "target ex_cat_world_pair = (\<lambda>ag inp. [[[1 / 2, 1 / 2]], [[1 / 2, 1 / 2]]])"
  by (simp_all add: ex_cat_world_pair_def ex_cat_world_def)

lemma ex_cat_batch_pair_fields:
  "s_action ex_cat_batch_pair = [0, 0]" "s_return ex_cat_batch_pair = [- 10, - 10]"
  "s_done ex_cat_batch_pair = [True, False]" "done_n ex_cat_batch_pair = [True, True]"
  "is_weights ex_cat_batch_pair = Some [1, 1]"
  "agent_inputs ex_cat_batch_pair = ()" "target_inputs ex_cat_batch_pair = ()"
  by (simp_all add: ex_cat_batch_pair_def)

lemma ex_cat_dqn_no_reset_fields:
  "config ex_cat_dqn_no_reset = DQN_init ex_args" "\<not> mid_batch_reset ex_cat_dqn_no_reset"
  "agent ex_cat_dqn_no_reset = 0"
  "V_min ex_cat_dqn_no_reset = - 10" "V_max ex_cat_dqn_no_reset = 10"
  by (simp_all add: ex_cat_dqn_no_reset_def ex_dqn_def dqn.defs cat_dqn.defs)

lemma Cat_support_pair_ex:
  "Cat_support ex_cat_world_pair ex_cat_dqn_no_reset ex_cat_batch_pair =
     Inr (20, [- 10, 10], [[- 10, - 10], [- 10, - 10]])"
  by (simp add: Cat_support_def linspace_def py_pow_def cat_next_z_def clamp_def err_bind_def
      ex_cat_world_pair_fields ex_cat_dqn_no_reset_fields ex_cat_batch_pair_fields
      ex_args_fields upt_conv_Cons)

lemma valid_pair_ex: "utils_valid_from_done [True, False] = [1, 0]"
  by (simp add: utils_valid_from_done_def)

lemma Cat_loss_pair_ex:
  "Cat_loss ex_cat_world_pair ex_cat_dqn_no_reset ex_cat_batch_pair = Inr (0, [EPS, 0])"
  by (simp add: Cat_loss_def Cat_support_pair_ex read_is_weights_def tensordot_def
      row_argmax_def select_at_indexes_def cat_project_def clamp_def err_bind_def
      Cat_get_loss_values_def Cat_losses_def Cat_KL_div_def EPS_def valid_pair_ex
      tensor_valid_mean_def
      ex_cat_world_pair_fields ex_cat_dqn_no_reset_fields ex_cat_batch_pair_fields
      ex_args_fields)

text \<open>
  Claim C6, amended. The errors that \<open>loss\<close> returns, which \<open>_apply_optimization\<close>
  passes to \<open>update_batch_priorities\<close>, are never negative: those of \<open>DQN.loss\<close> are
  absolute values, within \<open>[0, delta_clip]\<close> when \<open>delta_clip\<close> is set (and not
  negative); those of \<open>CategoricalDQN.loss\<close> lie in \<open>[1e-6, 1e6]\<close> when
  \<open>mid_batch_reset\<close> is true, and otherwise are products with the validity mask: for a
  mask of zeros and ones each is 0 or lies in \<open>[1e-6, 1e6]\<close>. They may be zero.
\<close>
theorem priority_errors_nonnegative:
  "(DQN_loss w st samples = Inr (l, errs) \<longrightarrow>
      (\<forall>dc. delta_clip (config st) = Some dc \<longrightarrow> 0 \<le> dc) \<longrightarrow>
      (\<forall>e\<in>set errs. 0 \<le> e \<and> (\<forall>dc. delta_clip (config st) = Some dc \<longrightarrow> e \<le> dc)))
   \<and> (Cat_loss w' st' samples' = Inr (l', errs') \<longrightarrow> mid_batch_reset st' \<longrightarrow>
        (\<forall>e\<in>set errs'. EPS \<le> e \<and> e \<le> 1 / EPS))
   \<and> (Cat_loss w' st' samples' = Inr (l', errs') \<longrightarrow> \<not> mid_batch_reset st' \<longrightarrow>
        (\<forall>v\<in>set (valid_from_done w' (s_done samples')). v = 0 \<or> v = 1) \<longrightarrow>
        (\<forall>e\<in>set errs'. 0 \<le> e \<and> (e = 0 \<or> (EPS \<le> e \<and> e \<le> 1 / EPS))))"
proof -
  have dqn: "0 \<le> e \<and> (\<forall>dc. delta_clip (config st) = Some dc \<longrightarrow> e \<le> dc)"
    if a: "DQN_loss w st samples = Inr (l, errs)"
      "\<forall>dc. delta_clip (config st) = Some dc \<longrightarrow> 0 \<le> dc" "e \<in> set errs" for e
  proof -
    from DQN_loss_Inr [OF a(1)] obtain q weigths y where
      "DQN_get_loss_values (config st) (mid_batch_reset st) q (s_done samples) weigths y
         = Inr (l, errs)" by blast
    from DQN_errors_nonneg [OF this a(2) a(3)] show ?thesis by blast
  qed
  have cat: "EPS \<le> e \<and> e \<le> 1 / EPS"
    if a: "Cat_loss w' st' samples' = Inr (l', errs')" "mid_batch_reset st'" "e \<in> set errs'"
    for e
  proof -
    from Cat_loss_Inr [OF a(1)] obtain p weigths target_p where
      g: "Cat_get_loss_values w' (config st') (mid_batch_reset st') p (s_done samples') weigths
            target_p = Inr (l', errs')" by blast
    then have "errs' = Cat_KL_div (map (map (\<lambda>x. clamp x EPS 1)) p) target_p"
      using a(2) by (simp add: Cat_get_loss_values_def Let_def)
    with a(3) Cat_KL_div_range show ?thesis by blast
  qed
  have masked: "0 \<le> e \<and> (e = 0 \<or> (EPS \<le> e \<and> e \<le> 1 / EPS))"
    if a: "Cat_loss w' st' samples' = Inr (l', errs')" "\<not> mid_batch_reset st'"
      "\<forall>v\<in>set (valid_from_done w' (s_done samples')). v = 0 \<or> v = 1" "e \<in> set errs'"
    for e
  proof -
    from Cat_loss_Inr [OF a(1)] obtain p weigths target_p where
      g: "Cat_get_loss_values w' (config st') (mid_batch_reset st') p (s_done samples') weigths
            target_p = Inr (l', errs')" by blast
    then have "errs' = map2 (*) (Cat_KL_div (map (map (\<lambda>x. clamp x EPS 1)) p) target_p)
                         (valid_from_done w' (s_done samples'))"
      using a(2) by (simp add: Cat_get_loss_values_def Let_def)
    with a(4) obtain k v where
      kv: "(k, v) \<in> set (zip (Cat_KL_div (map (map (\<lambda>x. clamp x EPS 1)) p) target_p)
                            (valid_from_done w' (s_done samples')))" "e = k * v"
      by auto
    then have k: "EPS \<le> k" "k \<le> 1 / EPS" and v: "v = 0 \<or> v = 1"
      using Cat_KL_div_range a(3) by (auto dest: set_zip_leftD set_zip_rightD)
    from v show ?thesis
    proof
      assume "v = 0"
      with kv(2) show ?thesis by simp
    next
      assume "v = 1"
      with kv(2) k EPS_pos show ?thesis by simp
    qed
  qed
  show ?thesis using dqn cat masked by blast
qed

theorem priority_errors_nonnegative_witness:
  "DQN_loss ex_world ex_dqn ex_batch = Inr (1, [1, 1])
   \<and> delta_clip (config ex_dqn) = Some 1
   \<and> Cat_loss ex_cat_world ex_cat_dqn ex_cat_batch = Inr (0, [EPS])
   \<and> mid_batch_reset ex_cat_dqn
   \<and> (0::real) \<le> 1 \<and> EPS \<le> EPS \<and> EPS \<le> 1 / EPS
   \<and> Cat_loss ex_cat_world_pair ex_cat_dqn_no_reset ex_cat_batch_pair = Inr (0, [EPS, 0])
   \<and> mid_batch_reset ex_cat_dqn_no_reset = False
   \<and> valid_from_done ex_cat_world_pair (s_done ex_cat_batch_pair) = [1, 0]"
proof -
  have d: "DQN_loss ex_world ex_dqn ex_batch = Inr (1, [1, 1])"
    by (rule DQN_loss_ex) (simp_all add: ex_dqn_def)
  have c: "delta_clip (config ex_dqn) = Some 1"
    by (simp add: ex_dqn_def ex_args_fields)
  have m: "valid_from_done ex_cat_world_pair (s_done ex_cat_batch_pair) = [1, 0]"
    by (simp add: ex_cat_world_pair_fields ex_cat_batch_pair_fields valid_pair_ex)
  note t1 = priority_errors_nonnegative [where w = ex_world and st = ex_dqn
      and samples = ex_batch and l = 1 and errs = "[1, 1]" and w' = ex_cat_world
      and st' = ex_cat_dqn and samples' = ex_cat_batch and l' = 0 and errs' = "[EPS]"]
  note t2 = priority_errors_nonnegative [where w = ex_world and st = ex_dqn
      and samples = ex_batch and l = 1 and errs = "[1, 1]" and w' = ex_cat_world_pair
      and st' = ex_cat_dqn_no_reset and samples' = ex_cat_batch_pair and l' = 0
      and errs' = "[EPS, 0]"]
  have a: "(0::real) \<le> 1 \<and> EPS \<le> EPS \<and> EPS \<le> 1 / EPS"
    using t1 by (simp add: d c Cat_loss_ex ex_cat_dqn_fields)
  have b: "(0::real) = 0 \<or> (EPS \<le> 0 \<and> 0 \<le> 1 / EPS)"
    using t2 [THEN conjunct2, THEN conjunct2]
    by (simp add: Cat_loss_pair_ex ex_cat_dqn_no_reset_fields m)
  from d c Cat_loss_ex ex_cat_dqn_fields(2) a Cat_loss_pair_ex ex_cat_dqn_no_reset_fields(2) m b
  show ?thesis by simp
qed


lemma target_y_nth:
  assumes "length returns = length dones_n" "length target_q = length dones_n"
    "i < length dones_n"
  shows "target_y returns disc_n dones_n target_q ! i =
           (if dones_n ! i then returns ! i else returns ! i + disc_n * target_q ! i)"
  using assms by (simp add: target_y_def)

lemma cat_next_z_nth:
  assumes "length returns = length dones_n" "b < length dones_n" "j < length z"
  shows "cat_next_z vmin vmax z disc_n returns dones_n ! b ! j =
           clamp (returns ! b + (if dones_n ! b then 0 else disc_n * z ! j)) vmin vmax"
  using assms by (simp add: cat_next_z_def mult.commute)

text \<open>
  Claim C5. The target of \<open>DQN.loss\<close> is
  \<open>y = return_ + (1 - done_n) * discount ** n_step_return * target_q\<close>: the stored
  n-step return alone where \<open>done_n\<close> is true, and the return plus the target value
  discounted by \<open>discount ** n_step_return\<close> otherwise. \<open>CategoricalDQN.loss\<close> applies
  the same rule to every atom of the support and clamps to \<open>[V_min, V_max]\<close>.
\<close>
theorem targets_cut_bootstrap:
  "(DQN_target_q w (double_dqn (config st)) (agent st) samples = Inr target_q \<longrightarrow>
      py_pow (discount (config st)) (n_step_return (config st)) = Inr disc_n \<longrightarrow>
      length (s_return samples) = length (done_n samples) \<longrightarrow>
      length target_q = length (done_n samples) \<longrightarrow>
      (case DQN_y w st samples of
         Inl e \<Rightarrow> False
       | Inr y \<Rightarrow>
           length y = length (done_n samples)
           \<and> (\<forall>i<length (done_n samples).
                 y ! i = (if done_n samples ! i then s_return samples ! i
                          else s_return samples ! i + disc_n * target_q ! i))))
   \<and> (Cat_support w' st' samples' = Inr (delta_z, z, next_z) \<longrightarrow>
        py_pow (discount (config st')) (n_step_return (config st')) = Inr disc_n' \<longrightarrow>
        length (s_return samples') = length (done_n samples') \<longrightarrow>
        length next_z = length (done_n samples')
        \<and> (\<forall>b<length (done_n samples'). length (next_z ! b) = length z
              \<and> (\<forall>j<length z.
                    next_z ! b ! j =
                      clamp (s_return samples' ! b
                             + (if done_n samples' ! b then 0 else disc_n' * z ! j))
                        (V_min st') (V_max st'))))
   \<and> (0 \<le> n \<longrightarrow> py_pow d n = Inr (d ^ nat n))"
proof -
  have dqn: "case DQN_y w st samples of
          Inl e \<Rightarrow> False
        | Inr y \<Rightarrow>
            length y = length (done_n samples)
            \<and> (\<forall>i<length (done_n samples).
                  y ! i = (if done_n samples ! i then s_return samples ! i
                           else s_return samples ! i + disc_n * target_q ! i))"
    if a: "DQN_target_q w (double_dqn (config st)) (agent st) samples = Inr target_q"
      "py_pow (discount (config st)) (n_step_return (config st)) = Inr disc_n"
      "length (s_return samples) = length (done_n samples)"
      "length target_q = length (done_n samples)"
  proof -
    have y: "DQN_y w st samples
               = Inr (target_y (s_return samples) disc_n (done_n samples) target_q)"
      using a(1,2) by (simp add: DQN_y_def err_bind_def)
    have len: "length (target_y (s_return samples) disc_n (done_n samples) target_q)
                 = length (done_n samples)"
      using a(3,4) by (simp add: target_y_def)
    show ?thesis
      unfolding y using len target_y_nth [OF a(3) a(4)] by simp
  qed
  have cat: "length next_z = length (done_n samples')
        \<and> (\<forall>b<length (done_n samples'). length (next_z ! b) = length z
              \<and> (\<forall>j<length z.
                    next_z ! b ! j =
                      clamp (s_return samples' ! b
                             + (if done_n samples' ! b then 0 else disc_n' * z ! j))
                        (V_min st') (V_max st')))"
    if a: "Cat_support w' st' samples' = Inr (delta_z, z, next_z)"
      "py_pow (discount (config st')) (n_step_return (config st')) = Inr disc_n'"
      "length (s_return samples') = length (done_n samples')"
  proof -
    have nz: "next_z = cat_next_z (V_min st') (V_max st') z disc_n' (s_return samples')
                         (done_n samples')"
      using a(1,2) by (auto simp: Cat_support_def err_bind_Inr_iff Let_def split: if_splits)
    have len: "length next_z = length (done_n samples')"
      unfolding nz using a(3) by (simp add: cat_next_z_def)
    have row: "length (next_z ! b) = length z" if "b < length (done_n samples')" for b
      unfolding nz using a(3) that by (simp add: cat_next_z_def)
    have entry: "next_z ! b ! j =
                   clamp (s_return samples' ! b
                          + (if done_n samples' ! b then 0 else disc_n' * z ! j))
                     (V_min st') (V_max st')"
      if "b < length (done_n samples')" "j < length z" for b j
      unfolding nz by (rule cat_next_z_nth [OF a(3) that])
    show ?thesis using len row entry by blast
  qed
  have pow: "py_pow d n = Inr (d ^ nat n)" if "0 \<le> n"
    using that by (simp add: py_pow_def)
  show ?thesis using dqn cat pow by blast
qed

lemma DQN_target_q_ex: "DQN_target_q ex_world False 0 ex_batch = Inr [5, 4]"
  by (simp add: DQN_target_q_def row_max_def err_bind_def ex_world_fields)

lemma DQN_y_ex: "DQN_y ex_world ex_dqn ex_batch = Inr [1, 4]"
  by (simp add: DQN_y_def DQN_target_q_ex py_pow_def err_bind_def target_y_def ex_dqn_def
      ex_args_fields ex_batch_fields)

theorem targets_cut_bootstrap_witness:
  "DQN_target_q ex_world (double_dqn (config ex_dqn)) (agent ex_dqn) ex_batch = Inr [5, 4]
   \<and> py_pow (discount (config ex_dqn)) (n_step_return (config ex_dqn)) = Inr (1 / 2)
   \<and> done_n ex_batch = [True, False] \<and> s_return ex_batch = [1, 2]
   \<and> DQN_y ex_world ex_dqn ex_batch = Inr [1, 2 + 1 / 2 * 4]
   \<and> Cat_support ex_cat_world ex_cat_dqn ex_cat_batch = Inr (20, [- 10, 10], [[- 10, - 10]])
   \<and> done_n ex_cat_batch = [True] \<and> s_return ex_cat_batch = [- 10]
   \<and> clamp (- 10 + 0) (V_min ex_cat_dqn) (V_max ex_cat_dqn) = - 10
   \<and> py_pow (1 / 2) 1 = Inr ((1 / 2) ^ nat 1)"
proof -
  have c: "double_dqn (config ex_dqn) = False" "agent ex_dqn = 0"
    "discount (config ex_dqn) = 1 / 2" "n_step_return (config ex_dqn) = 1"
    by (simp_all add: ex_dqn_def ex_args_fields)
  have p: "py_pow (1 / 2) 1 = Inr (1 / 2)" by (simp add: py_pow_def)
  show ?thesis
    using targets_cut_bootstrap [where w = ex_world and st = ex_dqn and samples = ex_batch
        and target_q = "[5, 4]" and disc_n = "1 / 2" and w' = ex_cat_world and st' = ex_cat_dqn
        and samples' = ex_cat_batch and delta_z = 20 and z = "[- 10, 10]"
        and next_z = "[[- 10, - 10]]" and disc_n' = "1 / 2" and n = 1 and d = "1 / 2"]
    by (simp add: c p DQN_target_q_ex DQN_y_ex Cat_support_ex ex_batch_fields
        ex_cat_batch_fields ex_cat_dqn_fields ex_args_fields clamp_def)
qed

subsection \<open>The optimization loop\<close>

lemma call_buffer_simps:
  "config (call_buffer c st) = config st"
  "agent (call_buffer c st) = agent st"
  "min_itr_learn (call_buffer c st) = min_itr_learn st"
  "updates_per_optimize (call_buffer c st) = updates_per_optimize st"
  "pri_beta_itr (call_buffer c st) = pri_beta_itr st"
  "mid_batch_reset (call_buffer c st) = mid_batch_reset st"
  "update_counter (call_buffer c st) = update_counter st"
  "rb_calls (replay_buffer (call_buffer c st)) = rb_calls (replay_buffer st) @ [c]"
  "rb_cls (replay_buffer (call_buffer c st)) = rb_cls (replay_buffer st)"
  "rb_kwargs (replay_buffer (call_buffer c st)) = rb_kwargs (replay_buffer st)"
  by (simp_all add: call_buffer_def)

lemma call_buffer_frame:
  "call_buffer c st = st\<lparr>replay_buffer := replay_buffer (call_buffer c st)\<rparr>"
  by (simp add: call_buffer_def)

text \<open>What one pass of the loop body does to the object, whatever its outcome.\<close>

lemma optimize_step_cases:
  fixes st :: "('ag, 't, 'inp, 'z) dqn_scheme"
  assumes "optimize_step loss_fn w st opt_info = (r, st')"
  defines "bs \<equiv> batch_size (config st)"
  defines "b \<equiv> sample_batch w (replay_buffer st) bs"
  defines "st1 \<equiv> call_buffer (Sample_batch bs b) st"
  shows "st' = st\<lparr>agent := agent st', replay_buffer := replay_buffer st',
                   update_counter := update_counter st'\<rparr>"
    and "replay_buffer st' = (replay_buffer st)\<lparr>rb_calls := rb_calls (replay_buffer st')\<rparr>"
    and "(\<exists>e. loss_fn st1 b = Inl e \<and> r = Inl e
             \<and> rb_calls (replay_buffer st') = rb_calls (replay_buffer st) @ [Sample_batch bs b])
         \<or> (\<exists>l errs. loss_fn st1 b = Inr (l, errs)
               \<and> rb_calls (replay_buffer st') =
                   rb_calls (replay_buffer st) @ Sample_batch bs b
                     # (if prioritized_replay (config st) then [Update_batch_priorities errs]
                        else []))"
proof -
  show "st' = st\<lparr>agent := agent st', replay_buffer := replay_buffer st',
                   update_counter := update_counter st'\<rparr>"
    using assms(1)
    by (auto simp: optimize_step_def apply_optimization_def call_buffer_def Let_def
        split: sum.splits prod.splits if_splits)
  show "replay_buffer st' = (replay_buffer st)\<lparr>rb_calls := rb_calls (replay_buffer st')\<rparr>"
    using assms(1)
    by (auto simp: optimize_step_def apply_optimization_def call_buffer_def Let_def
        split: sum.splits prod.splits if_splits)
  show "(\<exists>e. loss_fn st1 b = Inl e \<and> r = Inl e
             \<and> rb_calls (replay_buffer st') = rb_calls (replay_buffer st) @ [Sample_batch bs b])
         \<or> (\<exists>l errs. loss_fn st1 b = Inr (l, errs)
               \<and> rb_calls (replay_buffer st') =
                   rb_calls (replay_buffer st) @ Sample_batch bs b
                     # (if prioritized_replay (config st) then [Update_batch_priorities errs]
                        else []))"
    using assms(1) unfolding bs_def b_def st1_def
    by (auto simp: optimize_step_def apply_optimization_def call_buffer_def Let_def
        split: sum.splits prod.splits if_splits)
qed


lemma optimize_step_frame:
  fixes st :: "('ag, 't, 'inp, 'z) dqn_scheme"
  assumes "optimize_step loss_fn w st opt_info = (r, st')"
  shows "\<exists>ag calls uc. st' = st\<lparr>agent := ag,
            replay_buffer := (replay_buffer st)\<lparr>rb_calls := calls\<rparr>, update_counter := uc\<rparr>"
proof -
  have "st' = st\<lparr>agent := agent st',
            replay_buffer := (replay_buffer st)\<lparr>rb_calls := rb_calls (replay_buffer st')\<rparr>,
            update_counter := update_counter st'\<rparr>"
    using optimize_step_cases(1,2) [OF assms] by simp
  then show ?thesis by blast
qed

lemma optimize_loop_frame:
  fixes st :: "('ag, 't, 'inp, 'z) dqn_scheme"
  assumes "optimize_loop loss_fn w k st opt_info = (r, st')"
  shows "\<exists>ag calls uc. st' = st\<lparr>agent := ag,
            replay_buffer := (replay_buffer st)\<lparr>rb_calls := calls\<rparr>, update_counter := uc\<rparr>"
  using assms
proof (induction k arbitrary: st opt_info)
  case 0
  then have "st' = st\<lparr>agent := agent st,
      replay_buffer := (replay_buffer st)\<lparr>rb_calls := rb_calls (replay_buffer st)\<rparr>,
      update_counter := update_counter st\<rparr>" by simp
  then show ?case by blast
next
  case (Suc k)
  obtain r1 s1 where step: "optimize_step loss_fn w st opt_info = (r1, s1)"
    by (cases "optimize_step loss_fn w st opt_info") auto
  from optimize_step_frame [OF step] obtain ag1 calls1 uc1 where
    s1: "s1 = st\<lparr>agent := ag1, replay_buffer := (replay_buffer st)\<lparr>rb_calls := calls1\<rparr>,
                   update_counter := uc1\<rparr>" by blast
  show ?case
  proof (cases r1)
    case (Inl e)
    with Suc.prems step have "st' = s1" by simp
    with s1 show ?thesis by blast
  next
    case (Inr oi)
    with Suc.prems step have "optimize_loop loss_fn w k s1 oi = (r, st')" by simp
    from Suc.IH [OF this] obtain ag calls uc where
      "st' = s1\<lparr>agent := ag, replay_buffer := (replay_buffer s1)\<lparr>rb_calls := calls\<rparr>,
                  update_counter := uc\<rparr>" by blast
    then have "st' = st\<lparr>agent := ag, replay_buffer := (replay_buffer st)\<lparr>rb_calls := calls\<rparr>,
                  update_counter := uc\<rparr>" by (simp add: s1)
    then show ?thesis by blast
  qed
qed

text \<open>The calls of the loop on the buffer: sampling, and updates of the priorities
  under prioritized replay only.\<close>

lemma optimize_loop_calls:
  fixes st :: "('ag, 't, 'inp, 'z) dqn_scheme"
  assumes "optimize_loop loss_fn w k st opt_info = (r, st')"
  shows "\<exists>new. rb_calls (replay_buffer st') = rb_calls (replay_buffer st) @ new
           \<and> (\<forall>c\<in>set new. is_sample c \<or> (prioritized_replay (config st) \<and> is_update c))"
  using assms
proof (induction k arbitrary: st opt_info)
  case 0
  then show ?case by simp
next
  case (Suc k)
  obtain r1 s1 where step: "optimize_step loss_fn w st opt_info = (r1, s1)"
    by (cases "optimize_step loss_fn w st opt_info") auto
  from optimize_step_frame [OF step] have cfg: "config s1 = config st" by auto
  from optimize_step_cases(3) [OF step] obtain new1 where
    n1: "rb_calls (replay_buffer s1) = rb_calls (replay_buffer st) @ new1"
      "\<forall>c\<in>set new1. is_sample c \<or> (prioritized_replay (config st) \<and> is_update c)"
    by (auto split: if_splits)
  show ?case
  proof (cases r1)
    case (Inl e)
    with Suc.prems step have "st' = s1" by simp
    with n1 show ?thesis by blast
  next
    case (Inr oi)
    with Suc.prems step have "optimize_loop loss_fn w k s1 oi = (r, st')" by simp
    from Suc.IH [OF this] obtain new2 where
      "rb_calls (replay_buffer st') = rb_calls (replay_buffer s1) @ new2"
      "\<forall>c\<in>set new2. is_sample c \<or> (prioritized_replay (config s1) \<and> is_update c)"
      by blast
    with n1 cfg have "rb_calls (replay_buffer st') = rb_calls (replay_buffer st) @ (new1 @ new2)"
      "\<forall>c\<in>set (new1 @ new2). is_sample c \<or> (prioritized_replay (config st) \<and> is_update c)"
      by auto
    then show ?thesis by blast
  qed
qed


text \<open>Under prioritized replay a loop that completes leaves, for each pass, the call of
  \<open>sample_batch\<close> and right after it the call of \<open>update_batch_priorities\<close> with the
  errors that the loss computed from the returned batch.\<close>

lemma optimize_step_pair:
  fixes st :: "('ag, 't, 'inp, 'z) dqn_scheme"
  assumes "optimize_step loss_fn w st opt_info = (Inr oi, st')"
    and "prioritized_replay (config st)"
  shows "\<exists>b e. rb_calls (replay_buffer st') =
                 rb_calls (replay_buffer st)
                 @ [Sample_batch (batch_size (config st)) b, Update_batch_priorities e]
           \<and> (\<exists>ag rb uc l.
                 b = sample_batch w rb (batch_size (config st))
                 \<and> loss_fn (st\<lparr>agent := ag,
                        replay_buffer := rb\<lparr>rb_calls := rb_calls rb
                                             @ [Sample_batch (batch_size (config st)) b]\<rparr>,
                        update_counter := uc\<rparr>) b = Inr (l, e))"
proof -
  define bs where "bs = batch_size (config st)"
  define b where "b = sample_batch w (replay_buffer st) bs"
  from optimize_step_cases(3) [OF assms(1)] assms(2) obtain l errs where
    l: "loss_fn (call_buffer (Sample_batch bs b) st) b = Inr (l, errs)"
    and c: "rb_calls (replay_buffer st') =
              rb_calls (replay_buffer st) @ [Sample_batch bs b, Update_batch_priorities errs]"
    unfolding bs_def b_def by auto
  have "call_buffer (Sample_batch bs b) st =
          st\<lparr>agent := agent st,
             replay_buffer := (replay_buffer st)\<lparr>rb_calls := rb_calls (replay_buffer st)
                                                   @ [Sample_batch bs b]\<rparr>,
             update_counter := update_counter st\<rparr>"
    by (simp add: call_buffer_def)
  with l have "loss_fn (st\<lparr>agent := agent st,
             replay_buffer := (replay_buffer st)\<lparr>rb_calls := rb_calls (replay_buffer st)
                                                   @ [Sample_batch bs b]\<rparr>,
             update_counter := update_counter st\<rparr>) b = Inr (l, errs)" by simp
  with c b_def show ?thesis unfolding bs_def by blast
qed

lemma optimize_loop_pairs:
  fixes st :: "('ag, 't, 'inp, 'z) dqn_scheme"
  assumes "optimize_loop loss_fn w k st opt_info = (Inr oi, st')"
    and "prioritized_replay (config st)"
  shows "\<exists>pairs. length pairs = k
           \<and> rb_calls (replay_buffer st') =
               rb_calls (replay_buffer st)
               @ concat (map (\<lambda>(b, e). [Sample_batch (batch_size (config st)) b,
                                        Update_batch_priorities e]) pairs)
           \<and> (\<forall>(b, e)\<in>set pairs.
                 \<exists>ag rb uc l.
                   b = sample_batch w rb (batch_size (config st))
                   \<and> loss_fn (st\<lparr>agent := ag,
                          replay_buffer := rb\<lparr>rb_calls := rb_calls rb
                                               @ [Sample_batch (batch_size (config st)) b]\<rparr>,
                          update_counter := uc\<rparr>) b = Inr (l, e))"
  using assms
proof (induction k arbitrary: st opt_info)
  case 0
  then have "rb_calls (replay_buffer st') = rb_calls (replay_buffer st)" by simp
  then show ?case by (intro exI [of _ "[]"]) simp
next
  case (Suc k)
  obtain r1 s1 where step: "optimize_step loss_fn w st opt_info = (r1, s1)"
    by (cases "optimize_step loss_fn w st opt_info") auto
  with Suc.prems(1) obtain oi1 where r1: "r1 = Inr oi1"
    and rest: "optimize_loop loss_fn w k s1 oi1 = (Inr oi, st')"
    by (cases r1) auto
  from optimize_step_frame [OF step] obtain ag1 calls1 uc1 where
    s1: "s1 = st\<lparr>agent := ag1, replay_buffer := (replay_buffer st)\<lparr>rb_calls := calls1\<rparr>,
                   update_counter := uc1\<rparr>" by blast
  then have cfg: "config s1 = config st" by simp
  from optimize_step_pair [OF step [unfolded r1] Suc.prems(2)] obtain b e where
    first: "rb_calls (replay_buffer s1) =
              rb_calls (replay_buffer st)
              @ [Sample_batch (batch_size (config st)) b, Update_batch_priorities e]"
    and fromb: "\<exists>ag rb uc l.
                 b = sample_batch w rb (batch_size (config st))
                 \<and> loss_fn (st\<lparr>agent := ag,
                        replay_buffer := rb\<lparr>rb_calls := rb_calls rb
                                             @ [Sample_batch (batch_size (config st)) b]\<rparr>,
                        update_counter := uc\<rparr>) b = Inr (l, e)"
    by blast
  from Suc.IH [OF rest] Suc.prems(2) cfg obtain pairs where
    len: "length pairs = k"
    and calls: "rb_calls (replay_buffer st') =
               rb_calls (replay_buffer s1)
               @ concat (map (\<lambda>(b, e). [Sample_batch (batch_size (config st)) b,
                                        Update_batch_priorities e]) pairs)"
    and fromp: "\<forall>(b, e)\<in>set pairs.
                 \<exists>ag rb uc l.
                   b = sample_batch w rb (batch_size (config st))
                   \<and> loss_fn (s1\<lparr>agent := ag,
                          replay_buffer := rb\<lparr>rb_calls := rb_calls rb
                                               @ [Sample_batch (batch_size (config st)) b]\<rparr>,
                          update_counter := uc\<rparr>) b = Inr (l, e)"
    by auto
  have upd: "s1\<lparr>agent := ag, replay_buffer := rb, update_counter := uc\<rparr>
               = st\<lparr>agent := ag, replay_buffer := rb, update_counter := uc\<rparr>" for ag rb uc
    by (simp add: s1)
  let ?pairs = "(b, e) # pairs"
  have "length ?pairs = Suc k" using len by simp
  moreover have "rb_calls (replay_buffer st') =
      rb_calls (replay_buffer st)
      @ concat (map (\<lambda>(b, e). [Sample_batch (batch_size (config st)) b,
                               Update_batch_priorities e]) ?pairs)"
    using calls first by simp
  moreover have "\<forall>(b, e)\<in>set ?pairs.
                 \<exists>ag rb uc l.
                   b = sample_batch w rb (batch_size (config st))
                   \<and> loss_fn (st\<lparr>agent := ag,
                          replay_buffer := rb\<lparr>rb_calls := rb_calls rb
                                               @ [Sample_batch (batch_size (config st)) b]\<rparr>,
                          update_counter := uc\<rparr>) b = Inr (l, e)"
    using fromb fromp unfolding upd by simp
  ultimately show ?case by blast
qed


lemma update_itr_hyperparams_cases:
  fixes st :: "('ag, 't, 'inp, 'z) dqn_scheme"
  assumes "update_itr_hyperparams st itr = (r, st')"
  shows "st' = st \<or> (\<exists>beta. st' = call_buffer (Set_beta beta) st)"
  using assms
  by (auto simp: update_itr_hyperparams_def Let_def split: if_splits option.splits sum.splits)

lemma add_samples_to_buffer_cases:
  fixes st :: "('ag, 't, 'inp, 'z) dqn_scheme"
  shows "add_samples_to_buffer st itr samples =
           (if itr < 0 then (Inl AssertionError, st)
            else (Inr (), case samples of
                            None \<Rightarrow> st
                          | Some s \<Rightarrow> call_buffer (Append_samples (samples_to_buffer s)) st))"
  by (simp add: add_samples_to_buffer_def split: option.splits)

lemma pre_optimize_process_if:
  "(if c then pre_optimize_process st else st) = st"
  by (simp add: pre_optimize_process_def)

text \<open>The three ways through \<open>optimize_agent\<close>.\<close>

lemma optimize_agent_cases:
  fixes st :: "('ag, 't, 'inp, 'z) dqn_scheme"
  assumes "optimize_agent loss_fn w st itr0 samples sampler_itr = (r, st')"
    and "itr = (case sampler_itr of None \<Rightarrow> itr0 | Some si \<Rightarrow> si)"
    and "sA = (case samples of
                 None \<Rightarrow> st
               | Some s \<Rightarrow> call_buffer (Append_samples (samples_to_buffer s)) st)"
  shows "(itr < 0 \<and> r = Inl AssertionError \<and> st' = st)
       \<or> (0 \<le> itr \<and> itr < min_itr_learn st \<and> r = Inr get_empty_optim_info \<and> st' = sA)
       \<or> (0 \<le> itr \<and> min_itr_learn st \<le> itr
            \<and> (\<exists>r1 s2. optimize_loop loss_fn w (nat (updates_per_optimize st)) sA
                           get_empty_optim_info = (r1, s2)
                  \<and> (st' = s2 \<or> (\<exists>beta. st' = call_buffer (Set_beta beta) s2))
                  \<and> (\<forall>oi. r = Inr oi \<longrightarrow> r1 = Inr oi)))"
proof (cases "itr < 0")
  case True
  then show ?thesis
    using assms by (simp add: optimize_agent_def add_samples_to_buffer_cases)
next
  case nonneg: False
  have sA: "min_itr_learn sA = min_itr_learn st" "updates_per_optimize sA = updates_per_optimize st"
    unfolding assms(3) by (simp_all add: call_buffer_def split: option.splits)
  show ?thesis
  proof (cases "itr < min_itr_learn st")
    case True
    then show ?thesis
      using assms(1) nonneg sA unfolding assms(2,3) [symmetric] optimize_agent_def
      by (simp add: add_samples_to_buffer_cases assms(2,3) [symmetric])
  next
    case False
    obtain r1 s2 where loop: "optimize_loop loss_fn w (nat (updates_per_optimize st)) sA
                                get_empty_optim_info = (r1, s2)"
      by (cases "optimize_loop loss_fn w (nat (updates_per_optimize st)) sA get_empty_optim_info")
        auto
    obtain r3 s3 where upd: "update_itr_hyperparams s2 itr = (r3, s3)"
      by (cases "update_itr_hyperparams s2 itr") auto
    have unfolded: "optimize_agent loss_fn w st itr0 samples sampler_itr =
        (case optimize_loop loss_fn w (nat (updates_per_optimize st)) sA get_empty_optim_info of
           (Inl e, s) \<Rightarrow> (Inl e, s)
         | (Inr oi, s) \<Rightarrow>
             (case update_itr_hyperparams s itr of
                (Inl e, s') \<Rightarrow> (Inl e, s')
              | (Inr u, s') \<Rightarrow> (Inr oi, s')))"
      using nonneg False sA unfolding optimize_agent_def
      by (simp add: add_samples_to_buffer_cases assms(2,3) [symmetric] pre_optimize_process_if
          Let_def)
    have res: "(r, st') = (case r1 of Inl e \<Rightarrow> (Inl e, s2)
                           | Inr oi \<Rightarrow> (case r3 of Inl e \<Rightarrow> (Inl e, s3) | Inr u \<Rightarrow> (Inr oi, s3)))"
      unfolding assms(1) [symmetric] unfolded loop
      by (cases r1; cases r3) (simp_all add: upd)
    from update_itr_hyperparams_cases [OF upd]
    have s3: "s3 = s2 \<or> (\<exists>beta. s3 = call_buffer (Set_beta beta) s2)" .
    have "(st' = s2 \<or> (\<exists>beta. st' = call_buffer (Set_beta beta) s2))
          \<and> (\<forall>oi. r = Inr oi \<longrightarrow> r1 = Inr oi)"
      using res s3 by (auto split: sum.splits)
    with loop nonneg False show ?thesis by auto
  qed
qed

lemma new_calls_append:
  assumes "rb_calls (replay_buffer st') = rb_calls (replay_buffer st) @ new"
  shows "new_calls st st' = new"
  using assms by (simp add: new_calls_def)

lemma ex_dqn_run_fields:
  "batch_size (config ex_dqn) = 2" "target_update_interval (config ex_dqn) = 312"
  "updates_per_optimize ex_dqn = 2" "update_counter ex_dqn = 0" "agent ex_dqn = 0"
  "mid_batch_reset ex_dqn" "config ex_dqn = DQN_init ex_args"
  "rb_calls (replay_buffer ex_dqn) = []"
  by (simp_all add: ex_dqn_def ex_buffer_def DQN_init_def ex_args_def default_args_def)

lemma ex_args_run_fields:
  "batch_size (DQN_init ex_args) = 2" "target_update_interval (DQN_init ex_args) = 312"
  "target_update_tau (DQN_init ex_args) = 1" "pri_beta_init (DQN_init ex_args) = 2 / 5"
  "pri_beta_final (DQN_init ex_args) = 1"
  by (simp_all add: DQN_init_def ex_args_def default_args_def)

lemma optimize_step_ex_0:
  "optimize_step (DQN_loss ex_world) ex_world ex_dqn get_empty_optim_info =
     (Inr \<lparr>loss = [1], gradNorm = [0], tdAbsErr = [1]\<rparr>,
      ex_dqn\<lparr>agent := 1,
             replay_buffer := ex_buffer\<lparr>rb_calls :=
               [Sample_batch 2 ex_batch, Update_batch_priorities [1, 1]]\<rparr>,
             update_counter := 1\<rparr>)"
  by (simp add: optimize_step_def apply_optimization_def Let_def DQN_loss_ex call_buffer_simps
      ex_world_fields ex_dqn_run_fields ex_args_fields ex_args_run_fields
      get_empty_optim_info_def)
    (simp add: call_buffer_def ex_dqn_def ex_buffer_def)


lemma optimize_step_ex_1:
  "optimize_step (DQN_loss ex_world) ex_world
     (ex_dqn\<lparr>agent := 1,
             replay_buffer := ex_buffer\<lparr>rb_calls :=
               [Sample_batch 2 ex_batch, Update_batch_priorities [1, 1]]\<rparr>,
             update_counter := 1\<rparr>)
     \<lparr>loss = [1], gradNorm = [0], tdAbsErr = [1]\<rparr> =
     (Inr \<lparr>loss = [1, 3 / 4], gradNorm = [0, 0], tdAbsErr = [1, 0]\<rparr>,
      ex_dqn\<lparr>agent := 2,
             replay_buffer := ex_buffer\<lparr>rb_calls :=
               [Sample_batch 2 ex_batch, Update_batch_priorities [1, 1],
                Sample_batch 2 ex_batch, Update_batch_priorities [0, 1]]\<rparr>,
             update_counter := 2\<rparr>)"
  by (simp add: optimize_step_def apply_optimization_def Let_def DQN_loss_ex_1 call_buffer_simps
      ex_world_fields ex_dqn_run_fields ex_args_fields ex_args_run_fields)
    (simp add: call_buffer_def ex_dqn_def ex_buffer_def)

lemma optimize_loop_2:
  "optimize_loop loss_fn w 2 st opt_info =
     (case optimize_step loss_fn w st opt_info of
        (Inl e, s) \<Rightarrow> (Inl e, s)
      | (Inr oi, s) \<Rightarrow>
          (case optimize_step loss_fn w s oi of
             (Inl e, s') \<Rightarrow> (Inl e, s')
           | (Inr oi', s') \<Rightarrow> (Inr oi', s')))"
  by (simp add: numeral_2_eq_2 split: prod.splits sum.splits)

lemma optimize_loop_ex:
  "optimize_loop (DQN_loss ex_world) ex_world 2 ex_dqn get_empty_optim_info =
     (Inr \<lparr>loss = [1, 3 / 4], gradNorm = [0, 0], tdAbsErr = [1, 0]\<rparr>,
      ex_dqn\<lparr>agent := 2,
             replay_buffer := ex_buffer\<lparr>rb_calls :=
               [Sample_batch 2 ex_batch, Update_batch_priorities [1, 1],
                Sample_batch 2 ex_batch, Update_batch_priorities [0, 1]]\<rparr>,
             update_counter := 2\<rparr>)"
  by (simp add: optimize_loop_2 optimize_step_ex_0 optimize_step_ex_1 del: One_nat_def)

lemma optimize_agent_ex:
  "optimize_agent (DQN_loss ex_world) ex_world ex_dqn 2 None None =
     (Inr \<lparr>loss = [1, 3 / 4], gradNorm = [0, 0], tdAbsErr = [1, 0]\<rparr>,
      ex_dqn\<lparr>agent := 2,
             replay_buffer := ex_buffer\<lparr>rb_calls :=
               [Sample_batch 2 ex_batch, Update_batch_priorities [1, 1],
                Sample_batch 2 ex_batch, Update_batch_priorities [0, 1],
                Set_beta (2 / 5)]\<rparr>,
             update_counter := 2\<rparr>)"
  by (simp add: optimize_agent_def add_samples_to_buffer_def pre_optimize_process_def
      ex_dqn_fields ex_dqn_run_fields optimize_loop_ex update_itr_hyperparams_def beta_prog_def
      ex_args_fields ex_args_run_fields call_buffer_def)

lemma optimize_agent_ex_no_reset:
  "optimize_agent (DQN_loss ex_world) ex_world (ex_dqn\<lparr>mid_batch_reset := False\<rparr>) 2 None None =
     (Inl NotImplementedError,
      ex_dqn\<lparr>mid_batch_reset := False,
             replay_buffer := ex_buffer\<lparr>rb_calls := [Sample_batch 2 ex_batch]\<rparr>\<rparr>)"
  by (simp add: optimize_agent_def add_samples_to_buffer_def pre_optimize_process_def
      ex_dqn_fields ex_dqn_run_fields optimize_loop_2 optimize_step_def apply_optimization_def
      Let_def call_buffer_simps ex_world_fields ex_args_run_fields
      DQN_loss_def DQN_y_def DQN_target_q_def DQN_get_loss_values_def target_y_def
      read_is_weights_def select_at_indexes_def row_max_def py_pow_def err_bind_def
      ex_args_fields ex_batch_fields)
    (simp add: call_buffer_def ex_dqn_def ex_buffer_def)

lemma initialize_min_itr_learn:
  assumes "initialize w c ag n spec mbr examples = Inr st"
  shows "min_itr_learn st = min_steps_learn c div bs_size spec"
  using assms
  by (auto simp: initialize_def optim_initialize_def Let_def split: if_splits sum.splits)

lemma async_initialize_min_itr_learn:
  assumes "async_initialize w c ag n spec mbr examples = Inr st"
  shows "min_itr_learn st = min_steps_learn c div bs_size spec"
  using assms
  by (auto simp: async_initialize_def Let_def split: if_splits sum.splits)

lemma appended_calls:
  fixes st :: "('ag, 't, 'inp, 'z) dqn_scheme"
  assumes "sA = (case samples of
                   None \<Rightarrow> st
                 | Some s \<Rightarrow> call_buffer (Append_samples (samples_to_buffer s)) st)"
  shows "rb_calls (replay_buffer sA) =
           rb_calls (replay_buffer st)
           @ (case samples of None \<Rightarrow> [] | Some s \<Rightarrow> [Append_samples (samples_to_buffer s)])"
    and "config sA = config st"
    and "sA\<lparr>agent := ag, replay_buffer := rb, update_counter := uc\<rparr>
           = st\<lparr>agent := ag, replay_buffer := rb, update_counter := uc\<rparr>"
  unfolding assms by (simp_all add: call_buffer_def split: option.splits)

text \<open>All calls that one \<open>optimize_agent\<close> makes on the buffer, whatever its outcome.\<close>

lemma optimize_agent_new_calls:
  fixes st :: "('ag, 't, 'inp, 'z) dqn_scheme"
  assumes "optimize_agent loss_fn w st itr0 samples sampler_itr = (r, st')"
    and "itr = (case sampler_itr of None \<Rightarrow> itr0 | Some si \<Rightarrow> si)"
  shows "\<exists>loop betas.
           new_calls st st' =
             (if 0 \<le> itr
              then (case samples of None \<Rightarrow> [] | Some s \<Rightarrow> [Append_samples (samples_to_buffer s)])
              else [])
             @ loop @ betas
           \<and> (\<forall>c\<in>set loop. is_sample c \<or> (prioritized_replay (config st) \<and> is_update c))
           \<and> (\<forall>c\<in>set betas. is_set_beta c)
           \<and> (itr < min_itr_learn st \<longrightarrow> loop = [] \<and> betas = [])"
proof -
  define sA where "sA = (case samples of
                   None \<Rightarrow> st
                 | Some s \<Rightarrow> call_buffer (Append_samples (samples_to_buffer s)) st)"
  note app = appended_calls [OF sA_def]
  from optimize_agent_cases [OF assms(1,2) sA_def]
  consider (neg) "itr < 0" "st' = st"
    | (early) "0 \<le> itr" "itr < min_itr_learn st" "st' = sA"
    | (run) r1 s2 where "0 \<le> itr" "min_itr_learn st \<le> itr"
        "optimize_loop loss_fn w (nat (updates_per_optimize st)) sA get_empty_optim_info = (r1, s2)"
        "st' = s2 \<or> (\<exists>beta. st' = call_buffer (Set_beta beta) s2)"
    by blast
  then show ?thesis
  proof cases
    case neg
    then have "new_calls st st' = (if 0 \<le> itr then
        (case samples of None \<Rightarrow> [] | Some s \<Rightarrow> [Append_samples (samples_to_buffer s)])
        else []) @ [] @ []"
      by (simp add: new_calls_def)
    then show ?thesis by (intro exI [of _ "[]"]) simp
  next
    case early
    then have "new_calls st st' = (if 0 \<le> itr then
        (case samples of None \<Rightarrow> [] | Some s \<Rightarrow> [Append_samples (samples_to_buffer s)])
        else []) @ [] @ []"
      using app(1) by (simp add: new_calls_def)
    then show ?thesis by (intro exI [of _ "[]"]) simp
  next
    case run
    from optimize_loop_calls [OF run(3)] app(2) obtain loop where
      l: "rb_calls (replay_buffer s2) = rb_calls (replay_buffer sA) @ loop"
        "\<forall>c\<in>set loop. is_sample c \<or> (prioritized_replay (config st) \<and> is_update c)"
      by auto
    from run(4) obtain betas where
      b: "rb_calls (replay_buffer st') = rb_calls (replay_buffer s2) @ betas"
        "\<forall>c\<in>set betas. is_set_beta c"
    proof
      assume "st' = s2"
      then have "rb_calls (replay_buffer st') = rb_calls (replay_buffer s2) @ []" by simp
      then show ?thesis using that [of "[]"] by simp
    next
      assume "\<exists>beta. st' = call_buffer (Set_beta beta) s2"
      then obtain beta where "st' = call_buffer (Set_beta beta) s2" by blast
      then have "rb_calls (replay_buffer st') = rb_calls (replay_buffer s2) @ [Set_beta beta]"
        by (simp add: call_buffer_def)
      then show ?thesis using that [of "[Set_beta beta]"] by simp
    qed
    have "new_calls st st' = (if 0 \<le> itr then
        (case samples of None \<Rightarrow> [] | Some s \<Rightarrow> [Append_samples (samples_to_buffer s)])
        else []) @ loop @ betas"
      using l(1) b(1) app(1) run(1) by (simp add: new_calls_def)
    with l(2) b(2) run(2) show ?thesis by auto
  qed
qed

text \<open>
  Claim C1, amended. \<open>initialize\<close> sets \<open>min_itr_learn = min_steps_learn // sampler_bs\<close>.
  Let \<open>itr\<close> be the iteration that \<open>optimize_agent\<close> works with (\<open>sampler_itr\<close> when
  given, its argument \<open>itr\<close> otherwise). For \<open>0 \<le> itr < min_itr_learn\<close> the call
  appends the samples provided, if any, makes no other call on the buffer and returns
  an empty \<open>OptInfo\<close>. For every \<open>itr < min_itr_learn\<close> no \<open>sample_batch\<close> call is
  made: a call that samples has \<open>itr \<ge> min_itr_learn\<close>.
\<close>
theorem optimize_agent_before_min_itr_learn:
  fixes st :: "('ag, 't, 'inp, 'z) dqn_scheme"
  assumes "itr = (case sampler_itr of None \<Rightarrow> itr0 | Some si \<Rightarrow> si)"
  shows "(initialize w0 c ag n spec mbr examples = Inr st0
            \<or> async_initialize w0 c ag n spec mbr examples = Inr st0 \<longrightarrow>
            min_itr_learn st0 = min_steps_learn c div bs_size spec)
       \<and> (0 \<le> itr \<longrightarrow> itr < min_itr_learn st \<longrightarrow>
            optimize_agent loss_fn w st itr0 samples sampler_itr =
              (Inr get_empty_optim_info,
               case samples of
                 None \<Rightarrow> st
               | Some s \<Rightarrow> call_buffer (Append_samples (samples_to_buffer s)) st))
       \<and> (itr < min_itr_learn st \<longrightarrow>
            \<not> (\<exists>c\<in>set (new_calls st (snd (optimize_agent loss_fn w st itr0 samples sampler_itr))).
                  is_sample c))
       \<and> ((\<exists>c\<in>set (new_calls st (snd (optimize_agent loss_fn w st itr0 samples sampler_itr))).
              is_sample c) \<longrightarrow> min_itr_learn st \<le> itr)"
proof -
  obtain r st' where run: "optimize_agent loss_fn w st itr0 samples sampler_itr = (r, st')"
    by (cases "optimize_agent loss_fn w st itr0 samples sampler_itr") auto
  have early: "optimize_agent loss_fn w st itr0 samples sampler_itr =
              (Inr get_empty_optim_info,
               case samples of
                 None \<Rightarrow> st
               | Some s \<Rightarrow> call_buffer (Append_samples (samples_to_buffer s)) st)"
    if "0 \<le> itr" "itr < min_itr_learn st"
    using optimize_agent_cases [OF run assms refl] that run by auto
  from optimize_agent_new_calls [OF run assms] obtain loop betas where
    n: "new_calls st st' =
          (if 0 \<le> itr
           then (case samples of None \<Rightarrow> [] | Some s \<Rightarrow> [Append_samples (samples_to_buffer s)])
           else [])
          @ loop @ betas"
      "\<forall>c\<in>set betas. is_set_beta c"
      "itr < min_itr_learn st \<longrightarrow> loop = [] \<and> betas = []"
    by blast
  have nosample: "\<not> (\<exists>c\<in>set (new_calls st st'). is_sample c)" if lt: "itr < min_itr_learn st"
  proof -
    from n(3) lt have "loop = []" "betas = []" by simp_all
    with n(1) have "new_calls st st' = [] \<or> (\<exists>s. new_calls st st' = [Append_samples s])"
      by (cases samples) auto
    then show ?thesis by auto
  qed
  have a: "initialize w0 c ag n spec mbr examples = Inr st0
            \<or> async_initialize w0 c ag n spec mbr examples = Inr st0 \<longrightarrow>
            min_itr_learn st0 = min_steps_learn c div bs_size spec"
    using initialize_min_itr_learn [of w0 c ag n spec mbr examples st0]
      async_initialize_min_itr_learn [of w0 c ag n spec mbr examples st0]
    by blast
  have b: "0 \<le> itr \<longrightarrow> itr < min_itr_learn st \<longrightarrow>
            optimize_agent loss_fn w st itr0 samples sampler_itr =
              (Inr get_empty_optim_info,
               case samples of
                 None \<Rightarrow> st
               | Some s \<Rightarrow> call_buffer (Append_samples (samples_to_buffer s)) st)"
    using early by blast
  have c: "itr < min_itr_learn st \<longrightarrow>
            \<not> (\<exists>c\<in>set (new_calls st (snd (optimize_agent loss_fn w st itr0 samples sampler_itr))).
                  is_sample c)"
    using nosample by (simp add: run)
  have d: "(\<exists>c\<in>set (new_calls st (snd (optimize_agent loss_fn w st itr0 samples sampler_itr))).
              is_sample c) \<longrightarrow> min_itr_learn st \<le> itr"
    using c by (meson not_le)
  show ?thesis
    by (intro conjI) (rule a b c d)+
qed

theorem optimize_agent_before_min_itr_learn_witness:
  "initialize ex_world (DQN_init ex_args) 0 10 ex_spec True ex_examples = Inr ex_dqn
   \<and> min_itr_learn ex_dqn = 4 div 2
   \<and> optimize_agent (DQN_loss ex_world) ex_world ex_dqn 1 (Some ex_samples) None =
       (Inr get_empty_optim_info,
        call_buffer (Append_samples (samples_to_buffer ex_samples)) ex_dqn)
   \<and> new_calls ex_dqn (snd (optimize_agent (DQN_loss ex_world) ex_world ex_dqn 2 None None)) =
       [Sample_batch 2 ex_batch, Update_batch_priorities [1, 1],
        Sample_batch 2 ex_batch, Update_batch_priorities [0, 1], Set_beta (2 / 5)]
   \<and> min_itr_learn ex_dqn \<le> 2"
proof -
  have s: "new_calls ex_dqn (snd (optimize_agent (DQN_loss ex_world) ex_world ex_dqn 2 None None))
             = [Sample_batch 2 ex_batch, Update_batch_priorities [1, 1],
                Sample_batch 2 ex_batch, Update_batch_priorities [0, 1], Set_beta (2 / 5)]"
    by (simp add: optimize_agent_ex new_calls_def ex_dqn_run_fields)
  have i: "initialize ex_world (DQN_init ex_args) 0 10 ex_spec True ex_examples = Inr ex_dqn"
    by (simp add: initialize_def DQN_init_def ex_args_def default_args_def ex_spec_def
        ex_examples_def ex_dqn_def ex_world_def py_round_def initialize_replay_buffer_def
        examples_to_buffer_def replay_kwargs_def select_ReplayCls_def optim_initialize_def
        ex_buffer_def)
  have m: "min_steps_learn (DQN_init ex_args) = 4" "bs_size ex_spec = 2"
    by (simp_all add: DQN_init_def ex_args_def default_args_def ex_spec_def)
  show ?thesis
    using optimize_agent_before_min_itr_learn [where itr = 1 and ?itr0.0 = 1
        and sampler_itr = None and st = ex_dqn and w0 = ex_world
        and c = "DQN_init ex_args" and ag = 0 and n = 10 and spec = ex_spec and mbr = True
        and examples = ex_examples and ?st0.0 = ex_dqn and samples = "Some ex_samples"
        and loss_fn = "DQN_loss ex_world" and w = ex_world]
      optimize_agent_before_min_itr_learn [where itr = 2 and ?itr0.0 = 2
        and sampler_itr = None and st = ex_dqn and w0 = ex_world
        and c = "DQN_init ex_args" and ag = 0 and n = 10 and spec = ex_spec and mbr = True
        and examples = ex_examples and ?st0.0 = ex_dqn and samples = None
        and loss_fn = "DQN_loss ex_world" and w = ex_world]
    by (simp add: i m s ex_dqn_fields)
qed

text \<open>
  Claim C1 as stated fails for a negative iteration, which is below \<open>min_itr_learn\<close>:
  the assertion of \<open>add_samples_to_buffer\<close> fails, the samples provided are not
  appended and no \<open>OptInfo\<close> is returned.
\<close>
theorem optimize_agent_negative_itr_counterexample:
  "(- 1 :: int) < min_itr_learn ex_dqn
   \<and> optimize_agent (DQN_loss ex_world) ex_world ex_dqn (- 1) (Some ex_samples) None =
       (Inl AssertionError, ex_dqn)"
  by (simp add: optimize_agent_def add_samples_to_buffer_def ex_dqn_fields)

text \<open>
  Claim C10, amended. For \<open>itr \<ge> 0\<close>, \<open>add_samples_to_buffer\<close> with \<open>samples = None\<close>
  leaves the object, and so the replay buffer, unchanged; it changes the buffer only
  when samples are given and \<open>itr \<ge> 0\<close>. For \<open>itr < 0\<close> the assertion fails and
  nothing is appended. \<open>optimize_agent\<close> with \<open>samples = None\<close> makes no
  \<open>append_samples\<close> call; it leaves the object unchanged for
  \<open>0 \<le> itr < min_itr_learn\<close>, and for a negative iteration it stops at the assertion
  with the object unchanged, whatever the samples.
\<close>
theorem add_samples_none_leaves_buffer:
  fixes st :: "('ag, 't, 'inp, 'z) dqn_scheme"
  shows "(0 \<le> itr \<longrightarrow> add_samples_to_buffer st itr None = (Inr (), st))
       \<and> (replay_buffer (snd (add_samples_to_buffer st itr samples)) \<noteq> replay_buffer st \<longrightarrow>
            samples \<noteq> None \<and> 0 \<le> itr)
       \<and> (itr < 0 \<longrightarrow> add_samples_to_buffer st itr samples = (Inl AssertionError, st))
       \<and> \<not> (\<exists>c\<in>set (new_calls st (snd (optimize_agent loss_fn w st itr0 None sampler_itr))).
                is_append c)
       \<and> (0 \<le> (case sampler_itr of None \<Rightarrow> itr0 | Some si \<Rightarrow> si) \<longrightarrow>
            (case sampler_itr of None \<Rightarrow> itr0 | Some si \<Rightarrow> si) < min_itr_learn st \<longrightarrow>
            optimize_agent loss_fn w st itr0 None sampler_itr = (Inr get_empty_optim_info, st))
       \<and> ((case sampler_itr of None \<Rightarrow> itr0 | Some si \<Rightarrow> si) < 0 \<longrightarrow>
            optimize_agent loss_fn w st itr0 samples sampler_itr = (Inl AssertionError, st))"
proof -
  obtain r st' where run: "optimize_agent loss_fn w st itr0 None sampler_itr = (r, st')"
    by (cases "optimize_agent loss_fn w st itr0 None sampler_itr") auto
  from optimize_agent_new_calls [OF run refl] obtain loop betas where
    n0: "new_calls st st' =
           (if 0 \<le> (case sampler_itr of None \<Rightarrow> itr0 | Some si \<Rightarrow> si)
            then (case None of None \<Rightarrow> [] | Some s \<Rightarrow> [Append_samples (samples_to_buffer s)])
            else [])
           @ loop @ betas"
    and n23: "\<forall>c\<in>set loop. is_sample c \<or> (prioritized_replay (config st) \<and> is_update c)"
      "\<forall>c\<in>set betas. is_set_beta c"
    by blast
  from n0 have "new_calls st st' = loop @ betas" by simp
  note n = this n23
  have noappend: "\<not> (\<exists>c\<in>set (new_calls st st'). is_append c)"
  proof
    assume "\<exists>c\<in>set (new_calls st st'). is_append c"
    then obtain c where c: "c \<in> set (loop @ betas)" "is_append c"
      using n(1) by auto
    then have "is_sample c \<or> is_update c \<or> is_set_beta c"
      using n(2,3) by auto
    with c(2) show False by (cases c) auto
  qed
  have neg: "optimize_agent loss_fn w st itr0 samples sampler_itr = (Inl AssertionError, st)"
    if "(case sampler_itr of None \<Rightarrow> itr0 | Some si \<Rightarrow> si) < 0"
    using that by (simp add: optimize_agent_def add_samples_to_buffer_cases)
  have early: "optimize_agent loss_fn w st itr0 None sampler_itr = (Inr get_empty_optim_info, st)"
    if "0 \<le> (case sampler_itr of None \<Rightarrow> itr0 | Some si \<Rightarrow> si)"
      "(case sampler_itr of None \<Rightarrow> itr0 | Some si \<Rightarrow> si) < min_itr_learn st"
    using that by (simp add: optimize_agent_def add_samples_to_buffer_cases)
  have a1: "0 \<le> itr \<longrightarrow> add_samples_to_buffer st itr None = (Inr (), st)"
    by (simp add: add_samples_to_buffer_cases)
  have a2: "replay_buffer (snd (add_samples_to_buffer st itr samples)) \<noteq> replay_buffer st \<longrightarrow>
              samples \<noteq> None \<and> 0 \<le> itr"
    by (cases samples) (simp_all add: add_samples_to_buffer_cases)
  have a3: "itr < 0 \<longrightarrow> add_samples_to_buffer st itr samples = (Inl AssertionError, st)"
    by (simp add: add_samples_to_buffer_cases)
  have a4: "\<not> (\<exists>c\<in>set (new_calls st (snd (optimize_agent loss_fn w st itr0 None sampler_itr))).
                is_append c)"
    unfolding run snd_conv by (rule noappend)
  have a5: "0 \<le> (case sampler_itr of None \<Rightarrow> itr0 | Some si \<Rightarrow> si) \<longrightarrow>
            (case sampler_itr of None \<Rightarrow> itr0 | Some si \<Rightarrow> si) < min_itr_learn st \<longrightarrow>
            optimize_agent loss_fn w st itr0 None sampler_itr = (Inr get_empty_optim_info, st)"
    using early by (intro impI)
  have a6: "(case sampler_itr of None \<Rightarrow> itr0 | Some si \<Rightarrow> si) < 0 \<longrightarrow>
            optimize_agent loss_fn w st itr0 samples sampler_itr = (Inl AssertionError, st)"
    using neg by (intro impI)
  show ?thesis
    by (intro conjI) (rule a1 a2 a3 a4 a5 a6)+
qed

theorem add_samples_none_leaves_buffer_witness:
  "add_samples_to_buffer ex_dqn 0 None = (Inr (), ex_dqn)
   \<and> optimize_agent (DQN_loss ex_world) ex_world ex_dqn 1 None None
       = (Inr get_empty_optim_info, ex_dqn)
   \<and> add_samples_to_buffer ex_dqn (- 1) (Some ex_samples) = (Inl AssertionError, ex_dqn)
   \<and> optimize_agent (DQN_loss ex_world) ex_world ex_dqn 0 (Some ex_samples) (Some (- 1))
       = (Inl AssertionError, ex_dqn)"
proof -
  note t0 = add_samples_none_leaves_buffer [where st = ex_dqn and itr = 0
      and samples = "Some ex_samples" and loss_fn = "DQN_loss ex_world" and w = ex_world
      and ?itr0.0 = 1 and sampler_itr = None]
  note t1 = add_samples_none_leaves_buffer [where st = ex_dqn and itr = "- 1"
      and samples = "Some ex_samples" and loss_fn = "DQN_loss ex_world" and w = ex_world
      and ?itr0.0 = 0 and sampler_itr = "Some (- 1)"]
  have m: "min_itr_learn ex_dqn = 2" by (rule ex_dqn_fields)
  have "add_samples_to_buffer ex_dqn 0 None = (Inr (), ex_dqn)"
    using t0 [THEN conjunct1] by simp
  moreover have "optimize_agent (DQN_loss ex_world) ex_world ex_dqn 1 None None
       = (Inr get_empty_optim_info, ex_dqn)"
    using t0 [THEN conjunct2, THEN conjunct2, THEN conjunct2, THEN conjunct2, THEN conjunct1]
    by (simp add: m)
  moreover have "add_samples_to_buffer ex_dqn (- 1) (Some ex_samples)
       = (Inl AssertionError, ex_dqn)"
    using t1 [THEN conjunct2, THEN conjunct2, THEN conjunct1] by simp
  moreover have "optimize_agent (DQN_loss ex_world) ex_world ex_dqn 0 (Some ex_samples)
       (Some (- 1)) = (Inl AssertionError, ex_dqn)"
    using t1 [THEN conjunct2, THEN conjunct2, THEN conjunct2, THEN conjunct2, THEN conjunct2]
    by simp
  ultimately show ?thesis by (intro conjI)
qed

text \<open>
  Claim C10 as stated fails for \<open>optimize_agent\<close> once \<open>itr \<ge> min_itr_learn\<close>: with
  \<open>samples = None\<close> and prioritized replay, the call at \<open>itr = 2\<close> samples twice from the
  buffer, updates its priorities twice and sets its beta, so the replay buffer is not
  left unchanged.
\<close>

theorem add_samples_none_counterexample:
  "(0::int) \<le> 2
   \<and> rb_calls (replay_buffer ex_dqn) = []
   \<and> rb_calls (replay_buffer
         (snd (optimize_agent (DQN_loss ex_world) ex_world ex_dqn 2 None None))) =
       [Sample_batch 2 ex_batch, Update_batch_priorities [1, 1],
        Sample_batch 2 ex_batch, Update_batch_priorities [0, 1], Set_beta (2 / 5)]
   \<and> replay_buffer (snd (optimize_agent (DQN_loss ex_world) ex_world ex_dqn 2 None None))
       \<noteq> replay_buffer ex_dqn"
proof -
  have a: "rb_calls (replay_buffer ex_dqn) = []"
    by (simp add: ex_dqn_run_fields)
  have b: "rb_calls (replay_buffer
         (snd (optimize_agent (DQN_loss ex_world) ex_world ex_dqn 2 None None))) =
       [Sample_batch 2 ex_batch, Update_batch_priorities [1, 1],
        Sample_batch 2 ex_batch, Update_batch_priorities [0, 1], Set_beta (2 / 5)]"
    by (simp add: optimize_agent_ex)
  have c: "replay_buffer (snd (optimize_agent (DQN_loss ex_world) ex_world ex_dqn 2 None None))
       \<noteq> replay_buffer ex_dqn"
  proof
    assume "replay_buffer (snd (optimize_agent (DQN_loss ex_world) ex_world ex_dqn 2 None None))
              = replay_buffer ex_dqn"
    then have "rb_calls (replay_buffer
         (snd (optimize_agent (DQN_loss ex_world) ex_world ex_dqn 2 None None)))
           = rb_calls (replay_buffer ex_dqn)"
      by (rule arg_cong)
    then show False unfolding a b by simp
  qed
  show ?thesis using a b c by simp
qed

text \<open>A run of the distributional algorithm in its small world.\<close>

lemma Cat_support_ex_state:
  fixes st :: "(nat, nat, unit, 'z) cat_dqn_scheme"
  assumes "config st = DQN_init ex_args" "V_min st = - 10" "V_max st = 10"
  shows "Cat_support ex_cat_world st ex_cat_batch = Inr (20, [- 10, 10], [[- 10, - 10]])"
  using assms
  by (simp add: Cat_support_def linspace_def py_pow_def cat_next_z_def clamp_def err_bind_def
      ex_cat_world_fields ex_cat_batch_fields ex_args_fields upt_conv_Cons)

lemma Cat_loss_ex_state:
  fixes st :: "(nat, nat, unit, 'z) cat_dqn_scheme"
  assumes "config st = DQN_init ex_args" "mid_batch_reset st" "V_min st = - 10" "V_max st = 10"
  shows "Cat_loss ex_cat_world st ex_cat_batch = Inr (0, [EPS])"
  using assms
  by (simp add: Cat_loss_def Cat_support_ex_state read_is_weights_def tensordot_def
      row_argmax_def select_at_indexes_def cat_project_def clamp_def err_bind_def
      Cat_get_loss_values_def Cat_losses_def Cat_KL_div_def mean_def EPS_def
      ex_cat_world_fields ex_cat_batch_fields ex_args_fields)

lemma ex_cat_dqn_run_fields:
  "updates_per_optimize ex_cat_dqn = 2" "update_counter ex_cat_dqn = 0"
  "min_itr_learn ex_cat_dqn = 2" "pri_beta_itr ex_cat_dqn = Some 4"
  "replay_buffer ex_cat_dqn = ex_buffer"
  by (simp_all add: ex_cat_dqn_def ex_dqn_def dqn.defs cat_dqn.defs)

lemma ex_cat_world_run_fields:
  "optim_step ex_cat_world = (\<lambda>ag samples. (Suc ag, 0))"
  "sample_batch ex_cat_world = (\<lambda>rb n. ex_cat_batch)"
  "update_target ex_cat_world = (\<lambda>ag tau. ag)"
  by (simp_all add: ex_cat_world_def)

lemma optimize_step_cat_ex:
  fixes st :: "(nat, nat, unit, 'z) cat_dqn_scheme"
  assumes "config st = DQN_init ex_args" "mid_batch_reset st" "V_min st = - 10" "V_max st = 10"
    and "update_counter st < 311" "0 \<le> update_counter st"
  shows "optimize_step (Cat_loss ex_cat_world) ex_cat_world st opt_info =
     (Inr (opt_info\<lparr>loss := loss opt_info @ [0], gradNorm := gradNorm opt_info @ [0],
                      tdAbsErr := tdAbsErr opt_info @ [EPS]\<rparr>),
      st\<lparr>agent := Suc (agent st),
         replay_buffer := (replay_buffer st)\<lparr>rb_calls := rb_calls (replay_buffer st)
           @ [Sample_batch 2 ex_cat_batch, Update_batch_priorities [EPS]]\<rparr>,
         update_counter := update_counter st + 1\<rparr>)"
proof -
  have l: "Cat_loss ex_cat_world (call_buffer (Sample_batch 2 ex_cat_batch) st) ex_cat_batch
             = Inr (0, [EPS])"
    by (rule Cat_loss_ex_state) (simp_all add: call_buffer_def assms)
  have m: "(update_counter st + 1) mod 312 \<noteq> 0"
    using assms(5,6) by simp
  show ?thesis
    using m
    by (simp add: optimize_step_def apply_optimization_def Let_def l call_buffer_simps
        ex_cat_world_run_fields assms(1) ex_args_fields ex_args_run_fields)
      (simp add: call_buffer_def)
qed

lemma optimize_agent_cat_ex:
  "optimize_agent (Cat_loss ex_cat_world) ex_cat_world ex_cat_dqn 2 None None =
     (Inr \<lparr>loss = [0, 0], gradNorm = [0, 0], tdAbsErr = [EPS, EPS]\<rparr>,
      ex_cat_dqn\<lparr>agent := 2,
         replay_buffer := ex_buffer\<lparr>rb_calls :=
           [Sample_batch 2 ex_cat_batch, Update_batch_priorities [EPS],
            Sample_batch 2 ex_cat_batch, Update_batch_priorities [EPS], Set_beta (2 / 5)]\<rparr>,
         update_counter := 2\<rparr>)"
proof -
  have s0: "optimize_step (Cat_loss ex_cat_world) ex_cat_world ex_cat_dqn get_empty_optim_info =
     (Inr \<lparr>loss = [0], gradNorm = [0], tdAbsErr = [EPS]\<rparr>,
      ex_cat_dqn\<lparr>agent := Suc 0,
         replay_buffer := ex_buffer\<lparr>rb_calls :=
           [Sample_batch 2 ex_cat_batch, Update_batch_priorities [EPS]]\<rparr>,
         update_counter := 1\<rparr>)"
    by (subst optimize_step_cat_ex)
      (simp_all add: ex_cat_dqn_fields ex_cat_dqn_run_fields get_empty_optim_info_def
        ex_buffer_def)
  have s1: "optimize_step (Cat_loss ex_cat_world) ex_cat_world
      (ex_cat_dqn\<lparr>agent := Suc 0,
         replay_buffer := ex_buffer\<lparr>rb_calls :=
           [Sample_batch 2 ex_cat_batch, Update_batch_priorities [EPS]]\<rparr>,
         update_counter := 1\<rparr>)
      \<lparr>loss = [0], gradNorm = [0], tdAbsErr = [EPS]\<rparr> =
     (Inr \<lparr>loss = [0, 0], gradNorm = [0, 0], tdAbsErr = [EPS, EPS]\<rparr>,
      ex_cat_dqn\<lparr>agent := Suc (Suc 0),
         replay_buffer := ex_buffer\<lparr>rb_calls :=
           [Sample_batch 2 ex_cat_batch, Update_batch_priorities [EPS],
            Sample_batch 2 ex_cat_batch, Update_batch_priorities [EPS]]\<rparr>,
         update_counter := 2\<rparr>)"
    by (subst optimize_step_cat_ex)
      (simp_all add: ex_cat_dqn_fields ex_cat_dqn_run_fields)
  have loop: "optimize_loop (Cat_loss ex_cat_world) ex_cat_world 2 ex_cat_dqn get_empty_optim_info =
     (Inr \<lparr>loss = [0, 0], gradNorm = [0, 0], tdAbsErr = [EPS, EPS]\<rparr>,
      ex_cat_dqn\<lparr>agent := Suc (Suc 0),
         replay_buffer := ex_buffer\<lparr>rb_calls :=
           [Sample_batch 2 ex_cat_batch, Update_batch_priorities [EPS],
            Sample_batch 2 ex_cat_batch, Update_batch_priorities [EPS]]\<rparr>,
         update_counter := 2\<rparr>)"
    by (simp add: optimize_loop_2 s0 s1)
  show ?thesis
    by (simp add: optimize_agent_def add_samples_to_buffer_def pre_optimize_process_def
        ex_cat_dqn_fields ex_cat_dqn_run_fields loop update_itr_hyperparams_def beta_prog_def
        ex_args_fields ex_args_run_fields call_buffer_def)
qed

text \<open>
  Claim C3, amended. Consider an \<open>optimize_agent\<close> call that returns (no exception).
  Under prioritized replay the calls it makes on the buffer are: the append of the
  samples provided, if any; then, for each pass of the loop, one \<open>sample_batch\<close> call
  followed at once by one \<open>update_batch_priorities\<close> call, whose argument is the error
  tensor that \<open>loss\<close> returned for the batch this \<open>sample_batch\<close> call returned, in the
  state of the object right after sampling; then the \<open>set_beta\<close> call, if any. Without
  prioritized replay \<open>update_batch_priorities\<close> is never called, whatever the outcome.
\<close>
theorem priorities_follow_samples:
  fixes st :: "('ag, 't, 'inp, 'z) dqn_scheme"
  assumes "optimize_agent loss_fn w st itr0 samples sampler_itr = (r, st')"
  shows "(prioritized_replay (config st) \<longrightarrow> (\<exists>opt_info. r = Inr opt_info) \<longrightarrow>
            (\<exists>pairs betas.
               new_calls st st' =
                 (case samples of None \<Rightarrow> [] | Some s \<Rightarrow> [Append_samples (samples_to_buffer s)])
                 @ concat (map (\<lambda>(b, e). [Sample_batch (batch_size (config st)) b,
                                          Update_batch_priorities e]) pairs)
                 @ betas
               \<and> (\<forall>c\<in>set betas. is_set_beta c)
               \<and> (\<forall>(b, e)\<in>set pairs.
                     \<exists>ag rb uc l.
                       b = sample_batch w rb (batch_size (config st))
                       \<and> loss_fn (st\<lparr>agent := ag,
                              replay_buffer := rb\<lparr>rb_calls := rb_calls rb
                                @ [Sample_batch (batch_size (config st)) b]\<rparr>,
                              update_counter := uc\<rparr>) b = Inr (l, e))))
       \<and> (\<not> prioritized_replay (config st) \<longrightarrow>
            \<not> (\<exists>c\<in>set (new_calls st st'). is_update c))"
proof (intro conjI impI)
  assume pri: "prioritized_replay (config st)" and ok: "\<exists>opt_info. r = Inr opt_info"
  then obtain opt_info where r: "r = Inr opt_info" by blast
  define itr where "itr = (case sampler_itr of None \<Rightarrow> itr0 | Some si \<Rightarrow> si)"
  define sA where "sA = (case samples of
                   None \<Rightarrow> st
                 | Some s \<Rightarrow> call_buffer (Append_samples (samples_to_buffer s)) st)"
  note app = appended_calls [OF sA_def]
  let ?appended = "case samples of None \<Rightarrow> [] | Some s \<Rightarrow> [Append_samples (samples_to_buffer s)]"
  let ?pair = "\<lambda>(b, e). [Sample_batch (batch_size (config st)) b, Update_batch_priorities e]"
  let ?computed = "\<lambda>(b, e). \<exists>ag rb uc l.
                       b = sample_batch w rb (batch_size (config st))
                       \<and> loss_fn (st\<lparr>agent := ag,
                              replay_buffer := rb\<lparr>rb_calls := rb_calls rb
                                @ [Sample_batch (batch_size (config st)) b]\<rparr>,
                              update_counter := uc\<rparr>) b = Inr (l, e)"
  from optimize_agent_cases [OF assms itr_def sA_def] r
  consider (early) "st' = sA"
    | (run) s2 where
        "optimize_loop loss_fn w (nat (updates_per_optimize st)) sA get_empty_optim_info
           = (Inr opt_info, s2)"
        "st' = s2 \<or> (\<exists>beta. st' = call_buffer (Set_beta beta) s2)"
    by auto
  then show "\<exists>pairs betas.
               new_calls st st' = ?appended @ concat (map ?pair pairs) @ betas
               \<and> (\<forall>c\<in>set betas. is_set_beta c) \<and> (\<forall>p\<in>set pairs. ?computed p)"
  proof cases
    case early
    then have "new_calls st st' = ?appended @ concat (map ?pair []) @ []"
      using app(1) by (simp add: new_calls_def)
    then show ?thesis by (intro exI [of _ "[]"]) simp
  next
    case run
    from optimize_loop_pairs [OF run(1)] pri app(2) obtain pairs where
      calls: "rb_calls (replay_buffer s2) =
                rb_calls (replay_buffer sA) @ concat (map ?pair pairs)"
      and fromA: "\<forall>(b, e)\<in>set pairs. \<exists>ag rb uc l.
                       b = sample_batch w rb (batch_size (config st))
                       \<and> loss_fn (sA\<lparr>agent := ag,
                              replay_buffer := rb\<lparr>rb_calls := rb_calls rb
                                @ [Sample_batch (batch_size (config st)) b]\<rparr>,
                              update_counter := uc\<rparr>) b = Inr (l, e)"
      by auto
    have frm: "\<forall>p\<in>set pairs. ?computed p"
      using fromA unfolding app(3) .
    from run(2) obtain betas where
      b: "rb_calls (replay_buffer st') = rb_calls (replay_buffer s2) @ betas"
        "\<forall>c\<in>set betas. is_set_beta c"
    proof
      assume "st' = s2"
      then have "rb_calls (replay_buffer st') = rb_calls (replay_buffer s2) @ []" by simp
      then show ?thesis using that [of "[]"] by simp
    next
      assume "\<exists>beta. st' = call_buffer (Set_beta beta) s2"
      then obtain beta where "st' = call_buffer (Set_beta beta) s2" by blast
      then have "rb_calls (replay_buffer st') = rb_calls (replay_buffer s2) @ [Set_beta beta]"
        by (simp add: call_buffer_def)
      then show ?thesis using that [of "[Set_beta beta]"] by simp
    qed
    have "new_calls st st' = ?appended @ concat (map ?pair pairs) @ betas"
      using calls b(1) app(1) by (simp add: new_calls_def)
    with b(2) frm show ?thesis by blast
  qed
next
  assume nopri: "\<not> prioritized_replay (config st)"
  from optimize_agent_new_calls [OF assms refl] obtain loop betas where
    n: "new_calls st st' =
          (if 0 \<le> (case sampler_itr of None \<Rightarrow> itr0 | Some si \<Rightarrow> si)
           then (case samples of None \<Rightarrow> [] | Some s \<Rightarrow> [Append_samples (samples_to_buffer s)])
           else [])
          @ loop @ betas"
      "\<forall>c\<in>set loop. is_sample c \<or> (prioritized_replay (config st) \<and> is_update c)"
      "\<forall>c\<in>set betas. is_set_beta c"
    by blast
  show "\<not> (\<exists>c\<in>set (new_calls st st'). is_update c)"
  proof
    assume "\<exists>c\<in>set (new_calls st st'). is_update c"
    then obtain c where c: "c \<in> set (new_calls st st')" "is_update c" by blast
    from c(1) have "c \<in> set ((if 0 \<le> (case sampler_itr of None \<Rightarrow> itr0 | Some si \<Rightarrow> si)
           then (case samples of None \<Rightarrow> [] | Some s \<Rightarrow> [Append_samples (samples_to_buffer s)])
           else [])) \<or> c \<in> set loop \<or> c \<in> set betas"
      unfolding n(1) by (simp only: set_append Un_iff)
    moreover have "is_append c"
      if "c \<in> set ((if 0 \<le> (case sampler_itr of None \<Rightarrow> itr0 | Some si \<Rightarrow> si)
           then (case samples of None \<Rightarrow> [] | Some s \<Rightarrow> [Append_samples (samples_to_buffer s)])
           else []))"
    proof (cases "0 \<le> (case sampler_itr of None \<Rightarrow> itr0 | Some si \<Rightarrow> si)")
      case True
      with that have mem: "c \<in> set (case samples of None \<Rightarrow> []
                                     | Some s \<Rightarrow> [Append_samples (samples_to_buffer s)])"
        by (simp only: if_P)
      show ?thesis
      proof (cases samples)
        case None
        with mem show ?thesis by simp
      next
        case (Some s)
        with mem show ?thesis by simp
      qed
    next
      case False
      with that have "c \<in> set []" by (simp only: if_not_P if_False)
      then show ?thesis by simp
    qed
    ultimately have "is_append c \<or> c \<in> set loop \<or> c \<in> set betas" by blast
    then have "is_append c \<or> is_sample c \<or> is_set_beta c"
      using n(2,3) nopri by auto
    with c(2) show False by (cases c) auto
  qed
qed


lemma new_calls_ex:
  "new_calls ex_dqn
     (ex_dqn\<lparr>agent := 2,
             replay_buffer := ex_buffer\<lparr>rb_calls :=
               [Sample_batch 2 ex_batch, Update_batch_priorities [1, 1],
                Sample_batch 2 ex_batch, Update_batch_priorities [0, 1],
                Set_beta (2 / 5)]\<rparr>,
             update_counter := 2\<rparr>) =
     [Sample_batch 2 ex_batch, Update_batch_priorities [1, 1],
      Sample_batch 2 ex_batch, Update_batch_priorities [0, 1], Set_beta (2 / 5)]"
  by (simp add: new_calls_def ex_dqn_run_fields)

lemma new_calls_cat_ex:
  "new_calls ex_cat_dqn
     (ex_cat_dqn\<lparr>agent := 2,
         replay_buffer := ex_buffer\<lparr>rb_calls :=
           [Sample_batch 2 ex_cat_batch, Update_batch_priorities [EPS],
            Sample_batch 2 ex_cat_batch, Update_batch_priorities [EPS], Set_beta (2 / 5)]\<rparr>,
         update_counter := 2\<rparr>) =
     [Sample_batch 2 ex_cat_batch, Update_batch_priorities [EPS],
      Sample_batch 2 ex_cat_batch, Update_batch_priorities [EPS], Set_beta (2 / 5)]"
  by (simp add: new_calls_def ex_cat_dqn_run_fields ex_buffer_def)

theorem priorities_follow_samples_witness:
  "prioritized_replay (config ex_dqn)
   \<and> optimize_agent (DQN_loss ex_world) ex_world ex_dqn 2 None None =
       (Inr \<lparr>loss = [1, 3 / 4], gradNorm = [0, 0], tdAbsErr = [1, 0]\<rparr>,
        ex_dqn\<lparr>agent := 2,
               replay_buffer := ex_buffer\<lparr>rb_calls :=
                 [Sample_batch 2 ex_batch, Update_batch_priorities [1, 1],
                  Sample_batch 2 ex_batch, Update_batch_priorities [0, 1],
                  Set_beta (2 / 5)]\<rparr>,
               update_counter := 2\<rparr>)
   \<and> DQN_loss ex_world ex_dqn ex_batch = Inr (1, [1, 1])
   \<and> DQN_loss ex_world (ex_dqn\<lparr>agent := 1\<rparr>) ex_batch = Inr (3 / 4, [0, 1])
   \<and> prioritized_replay (config ex_cat_dqn)
   \<and> optimize_agent (Cat_loss ex_cat_world) ex_cat_world ex_cat_dqn 2 None None =
       (Inr \<lparr>loss = [0, 0], gradNorm = [0, 0], tdAbsErr = [EPS, EPS]\<rparr>,
        ex_cat_dqn\<lparr>agent := 2,
           replay_buffer := ex_buffer\<lparr>rb_calls :=
             [Sample_batch 2 ex_cat_batch, Update_batch_priorities [EPS],
              Sample_batch 2 ex_cat_batch, Update_batch_priorities [EPS], Set_beta (2 / 5)]\<rparr>,
           update_counter := 2\<rparr>)
   \<and> Cat_loss ex_cat_world ex_cat_dqn ex_cat_batch = Inr (0, [EPS])"
proof -
  have l0: "DQN_loss ex_world ex_dqn ex_batch = Inr (1, [1, 1])"
    by (rule DQN_loss_ex) (simp_all add: ex_dqn_run_fields)
  have l1: "DQN_loss ex_world (ex_dqn\<lparr>agent := 1\<rparr>) ex_batch = Inr (3 / 4, [0, 1])"
    by (rule DQN_loss_ex_1) (simp_all add: ex_dqn_run_fields)
  from priorities_follow_samples [OF optimize_agent_ex]
  have "\<not> prioritized_replay (config ex_dqn) \<longrightarrow>
          \<not> (\<exists>c\<in>set (new_calls ex_dqn
                 (ex_dqn\<lparr>agent := 2,
                    replay_buffer := ex_buffer\<lparr>rb_calls :=
                      [Sample_batch 2 ex_batch, Update_batch_priorities [1, 1],
                       Sample_batch 2 ex_batch, Update_batch_priorities [0, 1],
                       Set_beta (2 / 5)]\<rparr>,
                    update_counter := 2\<rparr>)). is_update c)"
    by (rule conjunct2)
  then have p0: "prioritized_replay (config ex_dqn)"
    unfolding new_calls_ex by simp
  from priorities_follow_samples [OF optimize_agent_cat_ex]
  have "\<not> prioritized_replay (config ex_cat_dqn) \<longrightarrow>
          \<not> (\<exists>c\<in>set (new_calls ex_cat_dqn
                 (ex_cat_dqn\<lparr>agent := 2,
                    replay_buffer := ex_buffer\<lparr>rb_calls :=
                      [Sample_batch 2 ex_cat_batch, Update_batch_priorities [EPS],
                       Sample_batch 2 ex_cat_batch, Update_batch_priorities [EPS],
                       Set_beta (2 / 5)]\<rparr>,
                    update_counter := 2\<rparr>)). is_update c)"
    by (rule conjunct2)
  then have p1: "prioritized_replay (config ex_cat_dqn)"
    unfolding new_calls_cat_ex by simp
  from p0 optimize_agent_ex l0 l1 p1 optimize_agent_cat_ex Cat_loss_ex
  show ?thesis by (intro conjI)
qed

text \<open>
  Claim C3 as stated fails when \<open>loss\<close> raises: with \<open>DQN\<close>, prioritized replay and
  \<open>mid_batch_reset\<close> false, \<open>optimize_agent\<close> calls \<open>sample_batch\<close> once and ends with
  \<open>NotImplementedError\<close>; no \<open>update_batch_priorities\<close> call follows.
\<close>
theorem priorities_follow_samples_counterexample:
  "prioritized_replay (config (ex_dqn\<lparr>mid_batch_reset := False\<rparr>))
   \<and> optimize_agent (DQN_loss ex_world) ex_world (ex_dqn\<lparr>mid_batch_reset := False\<rparr>) 2 None None =
       (Inl NotImplementedError,
        ex_dqn\<lparr>mid_batch_reset := False,
               replay_buffer := ex_buffer\<lparr>rb_calls := [Sample_batch 2 ex_batch]\<rparr>\<rparr>)
   \<and> new_calls (ex_dqn\<lparr>mid_batch_reset := False\<rparr>)
         (ex_dqn\<lparr>mid_batch_reset := False,
                replay_buffer := ex_buffer\<lparr>rb_calls := [Sample_batch 2 ex_batch]\<rparr>\<rparr>)
       = [Sample_batch 2 ex_batch]"
  by (simp add: optimize_agent_ex_no_reset new_calls_def ex_dqn_run_fields ex_args_fields)

text \<open>
  Claim C6 as stated fails: an absolute TD error is zero when the target equals the
  action value. In the small world the second pass of the loop, after one optimizer
  step, passes \<open>[0, 1]\<close> to \<open>update_batch_priorities\<close>.
\<close>
theorem priority_errors_zero_counterexample:
  "DQN_loss ex_world (ex_dqn\<lparr>agent := 1\<rparr>) ex_batch = Inr (3 / 4, [0, 1])
   \<and> new_calls ex_dqn (snd (optimize_agent (DQN_loss ex_world) ex_world ex_dqn 2 None None)) ! 3
       = Update_batch_priorities [0, 1]
   \<and> \<not> (0::real) < [0, 1] ! 0"
proof -
  have l1: "DQN_loss ex_world (ex_dqn\<lparr>agent := 1\<rparr>) ex_batch = Inr (3 / 4, [0, 1])"
    by (rule DQN_loss_ex_1) (simp_all add: ex_dqn_run_fields)
  have n3: "new_calls ex_dqn
              (snd (optimize_agent (DQN_loss ex_world) ex_world ex_dqn 2 None None)) ! 3
              = Update_batch_priorities [0, 1]"
    by (simp add: optimize_agent_ex new_calls_ex)
  show ?thesis
    using l1 n3 by simp
qed

end
